theory Spec2Isabelle
  imports Complex_Main
begin

section \<open>Data model\<close>

text \<open>
  The editor's numbers are JavaScript numbers. They are modelled as \<^typ>\<open>real\<close>:
  finite values with exact arithmetic. Infinity and NaN are outside the model; where the
  source can produce them (a division by a zero width, the bounding box of no object) the
  model says so, either by a hypothesis on the divisor or by an error value.
  An optional field of an object (\<open>undefined\<close> when absent) is an \<^typ>\<open>'a option\<close>.
\<close>

record point =
  pt_x :: real
  pt_y :: real

record transform =
  tr_x :: real
  tr_y :: real
  tr_width :: real
  tr_height :: real
  tr_rotation :: real

record style =
  strokeColor :: string
  fillColor :: string
  strokeWidth :: real
  opacity :: "real option"

record mask_point =
  mp_x :: real
  mp_y :: real
  mp_size :: real

record particle =
  sp_x :: real
  sp_y :: real
  sp_size :: real
  sp_alpha :: real

datatype brush_type = Normal | Spray | Marker

datatype object_type =
  Drawn | Rectangle | Circle | Triangle | Line | Polygon | Star | Merged | Image

text \<open>The \<open>data: any\<close> payload, with the fields the code reads and writes.\<close>

record obj_data =
  path :: "point list option"
  brushType :: "brush_type option"
  sprayParticles :: "particle list option"
  erasedAreas :: "mask_point list list option"
  imageUrl :: "string option"
  originalWidth :: "real option"
  originalHeight :: "real option"

datatype canvas_object =
  CanvasObject (obj_id: string) (obj_type: object_type) (transform: transform)
    (style: style) (data: obj_data) (children: "canvas_object list option")

text \<open>The absolute frame handed down the recursion of the eraser.\<close>

record parent_transform =
  par_x :: real
  par_y :: real
  par_rotation :: real
  par_scaleX :: real
  par_scaleY :: real

definition CANVAS_WIDTH :: real where
  "CANVAS_WIDTH = 1200"

definition CANVAS_HEIGHT :: real where
  "CANVAS_HEIGHT = 800"

definition emptyData :: obj_data where
  "emptyData = \<lparr>path = None, brushType = None, sprayParticles = None, erasedAreas = None,
     imageUrl = None, originalWidth = None, originalHeight = None\<rparr>"

section \<open>Geometry\<close>

text \<open>\<open>constrainToCanvas\<close>: the position is clamped against the requested size, the size
  against the canvas.\<close>

definition constrainToCanvas :: "real \<Rightarrow> real \<Rightarrow> real \<Rightarrow> real \<Rightarrow> transform \<Rightarrow> transform" where
  "constrainToCanvas x y w h base =
     base\<lparr>tr_x := max 0 (min x (CANVAS_WIDTH - w)),
          tr_y := max 0 (min y (CANVAS_HEIGHT - h)),
          tr_width := min w CANVAS_WIDTH,
          tr_height := min h CANVAS_HEIGHT\<rparr>"

text \<open>The unrotated bounding-box test \<open>x >= ox && x <= ox + width && y >= oy && y <= oy + height\<close>.\<close>

definition inBox :: "real \<Rightarrow> real \<Rightarrow> transform \<Rightarrow> bool" where
  "inBox x y t \<longleftrightarrow>
     x \<ge> tr_x t \<and> x \<le> tr_x t + tr_width t \<and> y \<ge> tr_y t \<and> y \<le> tr_y t + tr_height t"

text \<open>The body of the segment loop of \<open>isPointInObject\<close>: the distance from the point to
  the segment is below the threshold of 15.\<close>

definition nearSegment :: "real \<Rightarrow> real \<Rightarrow> point \<Rightarrow> point \<Rightarrow> bool" where
  "nearSegment x y p1 p2 =
     (let x1 = pt_x p1; y1 = pt_y p1; x2 = pt_x p2; y2 = pt_y p2;
          A = x - x1; B = y - y1; C = x2 - x1; D = y2 - y1;
          dot = A * C + B * D;
          lenSq = C * C + D * D;
          param = (if lenSq \<noteq> 0 then dot / lenSq else - 1);
          xx = (if param < 0 then x1 else if param > 1 then x2 else x1 + param * C);
          yy = (if param < 0 then y1 else if param > 1 then y2 else y1 + param * D);
          dx = x - xx; dy = y - yy;
          distance = sqrt (dx * dx + dy * dy)
      in distance < 15)"

text \<open>The loop \<open>for (i = 0; i < path.length - 1; i++)\<close> with its early \<open>return true\<close>.\<close>

fun nearPath :: "real \<Rightarrow> real \<Rightarrow> point list \<Rightarrow> bool" where
  "nearPath x y (p1 # p2 # rest) =
     (if nearSegment x y p1 p2 then True else nearPath x y (p2 # rest))"
| "nearPath x y _ = False"

definition isPointInObject :: "real \<Rightarrow> real \<Rightarrow> canvas_object \<Rightarrow> bool" where
  "isPointInObject x y obj =
     (let t = transform obj in
      case (if obj_type obj = Drawn then path (data obj) else None) of
        Some pth \<Rightarrow> (if nearPath x y pth then True else inBox x y t)
      | None \<Rightarrow>
          if tr_rotation t = 0 then inBox x y t
          else
            (let centerX = tr_x t + tr_width t / 2;
                 centerY = tr_y t + tr_height t / 2;
                 rad = - (tr_rotation t * pi) / 180;
                 dx = x - centerX; dy = y - centerY;
                 rotatedX = dx * cos rad - dy * sin rad + centerX;
                 rotatedY = dx * sin rad + dy * cos rad + centerY
             in inBox rotatedX rotatedY t))"

section \<open>Erase masks\<close>

text \<open>\<open>v || d\<close> on an optional number: an absent value and 0 both fall back to \<open>d\<close>.\<close>

definition orElse :: "real option \<Rightarrow> real \<Rightarrow> real" where
  "orElse v d = (case v of None \<Rightarrow> d | Some a \<Rightarrow> if a = 0 then d else a)"

text \<open>A mask point of a top-level object (the branch without \<open>parentTransform\<close>).\<close>

definition normalizeTop :: "transform \<Rightarrow> real \<Rightarrow> point \<Rightarrow> mask_point" where
  "normalizeTop t eraserSize p =
     \<lparr>mp_x = (pt_x p - tr_x t) / tr_width t,
      mp_y = (pt_y p - tr_y t) / tr_height t,
      mp_size = eraserSize / min (tr_width t) (tr_height t)\<rparr>"

text \<open>A mask point of an object inside a group (the branch with \<open>parentTransform\<close>).\<close>

definition normalizeNested :: "parent_transform \<Rightarrow> transform \<Rightarrow> real \<Rightarrow> point \<Rightarrow> mask_point" where
  "normalizeNested pt t eraserSize p =
     (let ow = tr_width t; oh = tr_height t;
          centerX = par_x pt + (tr_x t + ow / 2) * par_scaleX pt;
          centerY = par_y pt + (tr_y t + oh / 2) * par_scaleY pt;
          rad = - (par_rotation pt * pi) / 180;
          dx = pt_x p - centerX; dy = pt_y p - centerY;
          rotatedX = dx * cos rad - dy * sin rad;
          rotatedY = dx * sin rad + dy * cos rad;
          localX = rotatedX / par_scaleX pt + ow / 2;
          localY = rotatedY / par_scaleY pt + oh / 2
      in \<lparr>mp_x = localX / ow, mp_y = localY / oh,
          mp_size = eraserSize / min ow oh / par_scaleX pt\<rparr>)"

text \<open>The stroke that one call appends: the pending path, then the current position.\<close>

definition localPath ::
    "parent_transform option \<Rightarrow> transform \<Rightarrow> real \<Rightarrow> point list \<Rightarrow> point \<Rightarrow> mask_point list" where
  "localPath parentTransform t eraserSize currentPath currentPos =
     (case parentTransform of
        Some pt \<Rightarrow> map (normalizeNested pt t eraserSize) currentPath
                     @ [normalizeNested pt t eraserSize currentPos]
      | None \<Rightarrow> map (normalizeTop t eraserSize) currentPath
                     @ [normalizeTop t eraserSize currentPos])"

text \<open>The branch for regular objects: only \<open>data.erasedAreas\<close> is replaced.\<close>

definition eraseRegular ::
    "canvas_object \<Rightarrow> point list \<Rightarrow> point \<Rightarrow> real \<Rightarrow> parent_transform option \<Rightarrow> canvas_object" where
  "eraseRegular obj currentPath currentPos eraserSize parentTransform =
     (let erased = (case erasedAreas (data obj) of None \<Rightarrow> [] | Some e \<Rightarrow> e);
          stroke = localPath parentTransform (transform obj) eraserSize currentPath currentPos
      in CanvasObject (obj_id obj) (obj_type obj) (transform obj) (style obj)
           ((data obj)\<lparr>erasedAreas := Some (erased @ [stroke])\<rparr>) (children obj))"

text \<open>The group's scale factors, \<open>width / (data.originalWidth || width)\<close>.\<close>

definition groupScaleX :: "transform \<Rightarrow> obj_data \<Rightarrow> real" where
  "groupScaleX t d = tr_width t / orElse (originalWidth d) (tr_width t)"

definition groupScaleY :: "transform \<Rightarrow> obj_data \<Rightarrow> real" where
  "groupScaleY t d = tr_height t / orElse (originalHeight d) (tr_height t)"

text \<open>\<open>absX, absY, absRotation, absScaleX, absScaleY\<close> of a group.\<close>

definition groupAbsolute :: "transform \<Rightarrow> obj_data \<Rightarrow> parent_transform option \<Rightarrow> parent_transform" where
  "groupAbsolute t d parentTransform =
     (case parentTransform of
        None \<Rightarrow> \<lparr>par_x = tr_x t, par_y = tr_y t, par_rotation = tr_rotation t,
                 par_scaleX = groupScaleX t d, par_scaleY = groupScaleY t d\<rparr>
      | Some p \<Rightarrow> \<lparr>par_x = par_x p + tr_x t * par_scaleX p,
                   par_y = par_y p + tr_y t * par_scaleY p,
                   par_rotation = par_rotation p + tr_rotation t,
                   par_scaleX = par_scaleX p * groupScaleX t d,
                   par_scaleY = par_scaleY p * groupScaleY t d\<rparr>)"

text \<open>\<open>localX, localY\<close>: the eraser position in the group's unscaled frame.\<close>

definition groupLocal :: "transform \<Rightarrow> obj_data \<Rightarrow> parent_transform \<Rightarrow> point \<Rightarrow> point" where
  "groupLocal t d ab currentPos =
     (let centerX = par_x ab + tr_width t / 2;
          centerY = par_y ab + tr_height t / 2;
          dx = pt_x currentPos - centerX; dy = pt_y currentPos - centerY;
          rad = - (par_rotation ab * pi) / 180;
          rotatedX = dx * cos rad - dy * sin rad;
          rotatedY = dx * sin rad + dy * cos rad
      in \<lparr>pt_x = rotatedX / par_scaleX ab + orElse (originalWidth d) (tr_width t) / 2,
          pt_y = rotatedY / par_scaleY ab + orElse (originalHeight d) (tr_height t) / 2\<rparr>)"

text \<open>\<open>localX >= cx && localX <= cx + cw && localY >= cy && localY <= cy + ch\<close>.\<close>

definition childHit :: "point \<Rightarrow> canvas_object \<Rightarrow> bool" where
  "childHit lp child = inBox (pt_x lp) (pt_y lp) (transform child)"

fun applyEraserToObject ::
    "canvas_object \<Rightarrow> point list \<Rightarrow> point \<Rightarrow> real \<Rightarrow> parent_transform option \<Rightarrow> canvas_object" where
  "applyEraserToObject (CanvasObject i ty t st d cs) currentPath currentPos eraserSize parentTransform =
     (case cs of
        Some kids \<Rightarrow>
          if ty = Merged then
            CanvasObject i ty t st d
              (Some (map (\<lambda>child.
                 if childHit (groupLocal t d (groupAbsolute t d parentTransform) currentPos) child
                 then applyEraserToObject child currentPath currentPos eraserSize
                        (Some (groupAbsolute t d parentTransform))
                 else child) kids))
          else eraseRegular (CanvasObject i ty t st d cs) currentPath currentPos eraserSize parentTransform
      | None \<Rightarrow>
          eraseRegular (CanvasObject i ty t st d cs) currentPath currentPos eraserSize parentTransform)"

section \<open>The application state and its history\<close>

record history_state =
  snapshot :: "canvas_object list"

text \<open>The state of \<open>App\<close>. \<open>historyIndex\<close> only ever holds a natural number: it starts at
  0, moves by one behind a guard, or is set to \<open>newHistory.length - 1\<close> of a non-empty list.\<close>

record app =
  objects :: "canvas_object list"
  selectedIds :: "string list"
  history :: "history_state list"
  historyIndex :: nat

text \<open>What the model reports instead of a value: a read of a field of \<open>undefined\<close> or
  \<open>null\<close> (a \<open>TypeError\<close> in the source), and a bounding box that is still at
  its start values \<open>Infinity, -Infinity\<close> (not a real number).\<close>

datatype failure = TypeError | NonFinite

definition addToHistory :: "canvas_object list \<Rightarrow> 'a app_scheme \<Rightarrow> 'a app_scheme" where
  "addToHistory newObjects s =
     (let newHistory = take (historyIndex s + 1) (history s) @ [\<lparr>snapshot = newObjects\<rparr>]
      in s\<lparr>history := newHistory, historyIndex := length newHistory - 1\<rparr>)"

definition updateObjects :: "canvas_object list \<Rightarrow> 'a app_scheme \<Rightarrow> 'a app_scheme" where
  "updateObjects newObjects s = addToHistory newObjects (s\<lparr>objects := newObjects\<rparr>)"

definition handleUndo :: "'a app_scheme \<Rightarrow> failure + 'a app_scheme" where
  "handleUndo s =
     (if historyIndex s > 0 then
        (if historyIndex s - 1 < length (history s) then
           Inr (s\<lparr>historyIndex := historyIndex s - 1,
                  objects := snapshot (history s ! (historyIndex s - 1)),
                  selectedIds := []\<rparr>)
         else Inl TypeError)
      else Inr s)"

definition handleRedo :: "'a app_scheme \<Rightarrow> failure + 'a app_scheme" where
  "handleRedo s =
     (if int (historyIndex s) < int (length (history s)) - 1 then
        Inr (s\<lparr>historyIndex := historyIndex s + 1,
               objects := snapshot (history s ! (historyIndex s + 1)),
               selectedIds := []\<rparr>)
      else Inr s)"

definition handleNew :: "'a app_scheme \<Rightarrow> 'a app_scheme" where
  "handleNew s = s\<lparr>objects := [], selectedIds := [], history := [\<lparr>snapshot = []\<rparr>],
     historyIndex := 0\<rparr>"

definition handleDelete :: "'a app_scheme \<Rightarrow> 'a app_scheme" where
  "handleDelete s =
     (if length (selectedIds s) = 0 then s
      else (updateObjects (filter (\<lambda>obj. obj_id obj \<notin> set (selectedIds s)) (objects s)) s)
             \<lparr>selectedIds := []\<rparr>)"

subsection \<open>Property edits\<close>

text \<open>A \<open>Partial<CanvasObject>\<close>: every field may be absent.\<close>

record updates =
  u_id :: "string option"
  u_type :: "object_type option"
  u_transform :: "transform option"
  u_style :: "style option"
  u_data :: "obj_data option"
  u_children :: "canvas_object list option"

text \<open>\<open>{ ...obj.style, ...styleUpdates }\<close>: the optional \<open>opacity\<close> is kept when the
  update has none.\<close>

definition mergeStyle :: "style \<Rightarrow> style \<Rightarrow> style" where
  "mergeStyle old upd =
     upd\<lparr>opacity := (case opacity upd of None \<Rightarrow> opacity old | Some v \<Rightarrow> Some v)\<rparr>"

fun updateObjectStyle :: "canvas_object \<Rightarrow> style \<Rightarrow> canvas_object" where
  "updateObjectStyle (CanvasObject i ty t st d cs) styleUpdates =
     (case cs of
        Some kids \<Rightarrow>
          if ty = Merged then
            CanvasObject i ty t (mergeStyle st styleUpdates) d
              (Some (map (\<lambda>child. updateObjectStyle child styleUpdates) kids))
          else CanvasObject i ty t (mergeStyle st styleUpdates) d cs
      | None \<Rightarrow> CanvasObject i ty t (mergeStyle st styleUpdates) d cs)"

text \<open>\<open>{ ...obj, ...updates }\<close>: every field that the update has replaces the object's.\<close>

definition spreadUpdates :: "canvas_object \<Rightarrow> updates \<Rightarrow> canvas_object" where
  "spreadUpdates obj u =
     CanvasObject
       (case u_id u of None \<Rightarrow> obj_id obj | Some v \<Rightarrow> v)
       (case u_type u of None \<Rightarrow> obj_type obj | Some v \<Rightarrow> v)
       (case u_transform u of None \<Rightarrow> transform obj | Some v \<Rightarrow> v)
       (case u_style u of None \<Rightarrow> style obj | Some v \<Rightarrow> v)
       (case u_data u of None \<Rightarrow> data obj | Some v \<Rightarrow> v)
       (case u_children u of None \<Rightarrow> children obj | Some v \<Rightarrow> Some v)"

definition handleObjectUpdate :: "updates \<Rightarrow> 'a app_scheme \<Rightarrow> 'a app_scheme" where
  "handleObjectUpdate u s =
     (if length (selectedIds s) \<noteq> 1 then s
      else updateObjects
        (map (\<lambda>obj.
           if obj_id obj = selectedIds s ! 0 then
             (case u_style u of
                Some st \<Rightarrow> if obj_type obj = Merged then updateObjectStyle obj st
                           else spreadUpdates obj u
              | None \<Rightarrow> spreadUpdates obj u)
           else obj) (objects s)) s)"

subsection \<open>Merge\<close>

text \<open>One round of the \<open>forEach\<close> that grows the bounding box. \<open>None\<close> is the start,
  \<open>minX = minY = Infinity\<close> and \<open>maxX = maxY = -Infinity\<close>, against which the first
  object's own box wins.\<close>

fun growBox :: "(real \<times> real \<times> real \<times> real) option \<Rightarrow> canvas_object
    \<Rightarrow> (real \<times> real \<times> real \<times> real) option" where
  "growBox None obj =
     (let t = transform obj
      in Some (tr_x t, tr_y t, tr_x t + tr_width t, tr_y t + tr_height t))"
| "growBox (Some (minX, minY, maxX, maxY)) obj =
     (let t = transform obj
      in Some (min minX (tr_x t), min minY (tr_y t),
               max maxX (tr_x t + tr_width t), max maxY (tr_y t + tr_height t)))"

definition boundingBox :: "canvas_object list \<Rightarrow> (real \<times> real \<times> real \<times> real) option" where
  "boundingBox objs = foldl growBox None objs"

text \<open>A selected object re-expressed relative to the group's origin.\<close>

definition toRelative :: "real \<Rightarrow> real \<Rightarrow> canvas_object \<Rightarrow> canvas_object" where
  "toRelative constrainedX constrainedY obj =
     (let relativeTransform = (transform obj)\<lparr>tr_x := tr_x (transform obj) - constrainedX,
                                              tr_y := tr_y (transform obj) - constrainedY\<rparr>
      in case (if obj_type obj = Drawn then path (data obj) else None) of
           Some pth \<Rightarrow>
             CanvasObject (obj_id obj) (obj_type obj) relativeTransform (style obj)
               ((data obj)\<lparr>path := Some (map (\<lambda>point.
                    \<lparr>pt_x = pt_x point - constrainedX, pt_y = pt_y point - constrainedY\<rparr>) pth)\<rparr>)
               (children obj)
         | None \<Rightarrow>
             CanvasObject (obj_id obj) (obj_type obj) relativeTransform (style obj)
               (data obj) (children obj))"

text \<open>\<open>stamp\<close> is the decimal rendering of \<open>Date.now()\<close>.\<close>

definition handleMerge :: "string \<Rightarrow> 'a app_scheme \<Rightarrow> failure + 'a app_scheme" where
  "handleMerge stamp s =
     (if length (selectedIds s) < 2 then Inr s
      else
        (let selectedObjects = filter (\<lambda>obj. obj_id obj \<in> set (selectedIds s)) (objects s);
             remainingObjects = filter (\<lambda>obj. obj_id obj \<notin> set (selectedIds s)) (objects s)
         in case boundingBox selectedObjects of
              None \<Rightarrow> Inl NonFinite
            | Some (minX, minY, maxX, maxY) \<Rightarrow>
                (let mergedWidth = maxX - minX;
                     mergedHeight = maxY - minY;
                     constrainedX = max 0 (min minX (1200 - mergedWidth));
                     constrainedY = max 0 (min minY (800 - mergedHeight));
                     mergedObject =
                       CanvasObject (''merged-'' @ stamp) Merged
                         \<lparr>tr_x = constrainedX, tr_y = constrainedY, tr_width = mergedWidth,
                          tr_height = mergedHeight, tr_rotation = 0\<rparr>
                         \<lparr>strokeColor = ''#000000'', fillColor = ''transparent'',
                          strokeWidth = 2, opacity = None\<rparr>
                         (emptyData\<lparr>originalWidth := Some mergedWidth,
                                    originalHeight := Some mergedHeight\<rparr>)
                         (Some (map (toRelative constrainedX constrainedY) selectedObjects))
                 in Inr ((updateObjects (remainingObjects @ [mergedObject]) s)
                           \<lparr>selectedIds := [obj_id mergedObject]\<rparr>))))"

section \<open>Spray particles\<close>

text \<open>\<open>rnd\<close> is the sequence of values that \<open>Math.random()\<close> returns, in the order of
  the calls; particle number \<open>j\<close> of a segment whose first call is number \<open>k\<close> takes the
  four values from \<open>k + 4 * j\<close> on.\<close>

definition sprayParticle ::
    "(nat \<Rightarrow> real) \<Rightarrow> nat \<Rightarrow> real \<Rightarrow> real \<Rightarrow> real \<Rightarrow> real \<Rightarrow> real \<Rightarrow> nat \<Rightarrow> nat \<Rightarrow> particle" where
  "sprayParticle rnd k sw x1 y1 x2 y2 particleCount j =
     (let t = real j / real particleCount;
          px = x1 + (x2 - x1) * t;
          py = y1 + (y2 - y1) * t;
          spread = sw * 1.5;
          offsetX = (rnd k - 0.5) * spread;
          offsetY = (rnd (k + 1) - 0.5) * spread;
          sz = rnd (k + 2) * (sw / 3) + 1;
          alpha = rnd (k + 3) * 0.5 + 0.3
      in \<lparr>sp_x = px + offsetX, sp_y = py + offsetY, sp_size = sz, sp_alpha = alpha\<rparr>)"

text \<open>\<open>Math.max(particleDensity, Math.floor(dist / 2))\<close> with
  \<open>particleDensity = Math.max(1, Math.floor(strokeWidth / 2))\<close>.\<close>

definition particleCount :: "real \<Rightarrow> real \<Rightarrow> real \<Rightarrow> real \<Rightarrow> real \<Rightarrow> nat" where
  "particleCount sw x1 y1 x2 y2 =
     (let particleDensity = max 1 \<lfloor>sw / 2\<rfloor>;
          dist = sqrt ((x2 - x1) ^ 2 + (y2 - y1) ^ 2)
      in nat (max particleDensity \<lfloor>dist / 2\<rfloor>))"

fun sprayLoop ::
    "(nat \<Rightarrow> real) \<Rightarrow> nat \<Rightarrow> real \<Rightarrow> real \<Rightarrow> real \<Rightarrow> point list \<Rightarrow> particle list" where
  "sprayLoop rnd k sw objectX objectY (p1 # p2 # rest) =
     (let x1 = pt_x p1 - objectX; y1 = pt_y p1 - objectY;
          x2 = pt_x p2 - objectX; y2 = pt_y p2 - objectY;
          n = particleCount sw x1 y1 x2 y2
      in map (\<lambda>j. sprayParticle rnd (k + 4 * j) sw x1 y1 x2 y2 n j) [0..<n]
         @ sprayLoop rnd (k + 4 * n) sw objectX objectY (p2 # rest))"
| "sprayLoop rnd k sw objectX objectY _ = []"

definition generateSprayParticles ::
    "(nat \<Rightarrow> real) \<Rightarrow> point list \<Rightarrow> real \<Rightarrow> real \<Rightarrow> real \<Rightarrow> particle list" where
  "generateSprayParticles rnd pth sw objectX objectY = sprayLoop rnd 0 sw objectX objectY pth"

section \<open>The canvas and its pointer events\<close>

datatype tool =
  SelectTool | BrushTool | EraserTool | RectangleTool | CircleTool | TriangleTool
  | LineTool | PolygonTool | StarTool | MergeTool

text \<open>The shape tools, \<open>['rectangle', 'circle', 'triangle', 'polygon', 'star', 'line']\<close>,
  with the object type that \<open>currentTool as any\<close> gives the new object.\<close>

fun shapeType :: "tool \<Rightarrow> object_type option" where
  "shapeType RectangleTool = Some Rectangle"
| "shapeType CircleTool = Some Circle"
| "shapeType TriangleTool = Some Triangle"
| "shapeType PolygonTool = Some Polygon"
| "shapeType StarTool = Some Star"
| "shapeType LineTool = Some Line"
| "shapeType _ = None"

fun toolName :: "tool \<Rightarrow> string" where
  "toolName SelectTool = ''select''"
| "toolName BrushTool = ''brush''"
| "toolName EraserTool = ''eraser''"
| "toolName RectangleTool = ''rectangle''"
| "toolName CircleTool = ''circle''"
| "toolName TriangleTool = ''triangle''"
| "toolName LineTool = ''line''"
| "toolName PolygonTool = ''polygon''"
| "toolName StarTool = ''star''"
| "toolName MergeTool = ''merge''"

text \<open>The state of \<open>App\<close> together with the state of \<open>Canvas\<close>. One handler runs to its
  end on the state of the last render, and its \<open>set...\<close> calls take effect together.\<close>

record editor = app +
  currentTool :: tool
  eraserSize :: real
  brushSize :: real
  brushColor :: string
  activeBrushType :: brush_type
  brushOpacity :: real
  isDrawing :: bool
  currentPath :: "point list"
  dragStart :: "point option"
  dragOffset :: "point option"
  resizeHandle :: "string option"
  rotateStart :: "point option"
  initialRotation :: real
  marqueeStart :: "point option"
  marqueeCurrent :: "point option"
  mousePosition :: "point option"
  shapeStart :: "point option"
  shapeCurrent :: "point option"

definition initialEditor :: editor where
  "initialEditor =
     \<lparr>objects = [], selectedIds = [], history = [\<lparr>snapshot = []\<rparr>], historyIndex = 0,
      currentTool = SelectTool, eraserSize = 20, brushSize = 5, brushColor = ''#000000'',
      activeBrushType = Normal, brushOpacity = 1, isDrawing = False, currentPath = [],
      dragStart = None, dragOffset = None, resizeHandle = None, rotateStart = None,
      initialRotation = 0, marqueeStart = None, marqueeCurrent = None, mousePosition = None,
      shapeStart = None, shapeCurrent = None\<rparr>"

definition transformPointToObjectSpace :: "real \<Rightarrow> real \<Rightarrow> canvas_object \<Rightarrow> point" where
  "transformPointToObjectSpace x y obj =
     (let t = transform obj;
          centerX = tr_x t + tr_width t / 2;
          centerY = tr_y t + tr_height t / 2;
          dx = x - centerX; dy = y - centerY;
          rad = - (tr_rotation t * pi) / 180;
          rotatedX = dx * cos rad - dy * sin rad;
          rotatedY = dx * sin rad + dy * cos rad
      in \<lparr>pt_x = rotatedX + tr_width t / 2, pt_y = rotatedY + tr_height t / 2\<rparr>)"

definition resizeHandles :: "real \<Rightarrow> real \<Rightarrow> (real \<times> real \<times> string) list" where
  "resizeHandles w h =
     [(0, 0, ''nw''), (w / 2, 0, ''n''), (w, 0, ''ne''), (w, h / 2, ''e''),
      (w, h, ''se''), (w / 2, h, ''s''), (0, h, ''sw''), (0, h / 2, ''w'')]"

text \<open>The first selected object, \<open>objects.find(obj => selectedIds.includes(obj.id))\<close>.\<close>

definition firstSelected :: "editor \<Rightarrow> canvas_object option" where
  "firstSelected s = find (\<lambda>obj. obj_id obj \<in> set (selectedIds s)) (objects s)"

text \<open>Pointer-down with the select tool on the handles or the body of the selected object;
  \<open>None\<close> when none of the three tests returns.\<close>

definition grabSelected :: "point \<Rightarrow> canvas_object \<Rightarrow> editor \<Rightarrow> editor option" where
  "grabSelected pos selected s =
     (let t = transform selected;
          handleSize = 8;
          localPos = transformPointToObjectSpace (pt_x pos) (pt_y pos) selected;
          rotHandleLocalX = tr_width t / 2;
          rotHandleLocalY = - 30
      in if \<bar>pt_x localPos - rotHandleLocalX\<bar> < 10 \<and> \<bar>pt_y localPos - rotHandleLocalY\<bar> < 10
         then Some (s\<lparr>resizeHandle := Some ''rotate'', rotateStart := Some pos,
                      dragStart := Some pos, initialRotation := tr_rotation t\<rparr>)
         else
           (case find (\<lambda>(hx, hy, hid). \<bar>pt_x localPos - hx\<bar> < handleSize * 1.5
                                       \<and> \<bar>pt_y localPos - hy\<bar> < handleSize * 1.5)
                   (resizeHandles (tr_width t) (tr_height t)) of
              Some (hx, hy, hid) \<Rightarrow> Some (s\<lparr>resizeHandle := Some hid, dragStart := Some pos\<rparr>)
            | None \<Rightarrow>
                if isPointInObject (pt_x pos) (pt_y pos) selected
                then Some (s\<lparr>dragStart := Some pos,
                             dragOffset := Some \<lparr>pt_x = pt_x pos - tr_x t,
                                                 pt_y = pt_y pos - tr_y t\<rparr>\<rparr>)
                else None))"

text \<open>\<open>multi\<close> is \<open>e.ctrlKey || e.metaKey\<close>.\<close>

definition clickObjects :: "point \<Rightarrow> bool \<Rightarrow> editor \<Rightarrow> editor" where
  "clickObjects pos multi s =
     (case find (isPointInObject (pt_x pos) (pt_y pos)) (rev (objects s)) of
        Some clickedObj \<Rightarrow>
          if multi then
            (if obj_id clickedObj \<in> set (selectedIds s)
             then s\<lparr>selectedIds := filter (\<lambda>i. i \<noteq> obj_id clickedObj) (selectedIds s)\<rparr>
             else s\<lparr>selectedIds := selectedIds s @ [obj_id clickedObj]\<rparr>)
          else s\<lparr>selectedIds := [obj_id clickedObj], dragStart := Some pos,
                 dragOffset := Some \<lparr>pt_x = pt_x pos - tr_x (transform clickedObj),
                                     pt_y = pt_y pos - tr_y (transform clickedObj)\<rparr>\<rparr>
      | None \<Rightarrow>
          (if \<not> multi then s\<lparr>selectedIds := []\<rparr> else s)
            \<lparr>marqueeStart := Some pos, marqueeCurrent := Some pos\<rparr>)"

definition handleMouseDown :: "point \<Rightarrow> bool \<Rightarrow> editor \<Rightarrow> editor" where
  "handleMouseDown pos multi s =
     (if pt_x pos < 0 \<or> pt_x pos > CANVAS_WIDTH \<or> pt_y pos < 0 \<or> pt_y pos > CANVAS_HEIGHT then s
      else if currentTool s = BrushTool then s\<lparr>isDrawing := True, currentPath := [pos]\<rparr>
      else if currentTool s = EraserTool then s\<lparr>isDrawing := True, currentPath := [pos]\<rparr>
      else if shapeType (currentTool s) \<noteq> None
        then s\<lparr>shapeStart := Some pos, shapeCurrent := Some pos\<rparr>
      else if currentTool s = SelectTool then
        (case firstSelected s of
           Some selected \<Rightarrow>
             (case grabSelected pos selected s of
                Some s' \<Rightarrow> s'
              | None \<Rightarrow> clickObjects pos multi s)
         | None \<Rightarrow> clickObjects pos multi s)
      else s)"

subsection \<open>Pointer move\<close>

text \<open>\<open>Math.atan2(y, x)\<close>: the angle of the point \<open>(x, y)\<close>, in \<open>(-\<pi>, \<pi>]\<close>, and 0 at the
  origin.\<close>

definition atan2 :: "real \<Rightarrow> real \<Rightarrow> real" where
  "atan2 y x =
     (if x > 0 then arctan (y / x)
      else if x < 0 then (if y \<ge> 0 then arctan (y / x) + pi else arctan (y / x) - pi)
      else if y > 0 then pi / 2
      else if y < 0 then - pi / 2
      else 0)"

definition setTransform :: "transform \<Rightarrow> canvas_object \<Rightarrow> canvas_object" where
  "setTransform t obj =
     CanvasObject (obj_id obj) (obj_type obj) t (style obj) (data obj) (children obj)"

definition setPath :: "point list \<Rightarrow> canvas_object \<Rightarrow> canvas_object" where
  "setPath pth obj =
     CanvasObject (obj_id obj) (obj_type obj) (transform obj) (style obj)
       ((data obj)\<lparr>path := Some pth\<rparr>) (children obj)"

text \<open>The rotate branch: the angle of the pointer about the centre of the selected
  object, plus 90 degrees.\<close>

definition rotateSelected :: "point \<Rightarrow> canvas_object \<Rightarrow> canvas_object list \<Rightarrow> canvas_object list" where
  "rotateSelected pos selected objs =
     (let centerX = tr_x (transform selected) + tr_width (transform selected) / 2;
          centerY = tr_y (transform selected) + tr_height (transform selected) / 2;
          angle = atan2 (pt_y pos - centerY) (pt_x pos - centerX) * (180 / pi) + 90
      in map (\<lambda>obj. if obj_id obj = obj_id selected
                     then setTransform ((transform obj)\<lparr>tr_rotation := angle\<rparr>) obj
                     else obj) objs)"

text \<open>\<open>resizeHandle.includes('n')\<close> and its like, on the characters of the handle's name.\<close>

definition handleIncludes :: "string \<Rightarrow> char \<Rightarrow> bool" where
  "handleIncludes h c \<longleftrightarrow> c \<in> set h"

text \<open>The four edge moves of a resize, before anything is constrained.\<close>

definition moveEdges :: "string \<Rightarrow> real \<Rightarrow> real \<Rightarrow> transform \<Rightarrow> transform" where
  "moveEdges h dx dy t0 =
     (let t1 = (if handleIncludes h CHR ''n''
                then t0\<lparr>tr_y := tr_y t0 + dy, tr_height := tr_height t0 - dy\<rparr> else t0);
          t2 = (if handleIncludes h CHR ''s'' then t1\<lparr>tr_height := tr_height t1 + dy\<rparr> else t1);
          t3 = (if handleIncludes h CHR ''w''
                then t2\<lparr>tr_x := tr_x t2 + dx, tr_width := tr_width t2 - dx\<rparr> else t2);
          t4 = (if handleIncludes h CHR ''e'' then t3\<lparr>tr_width := tr_width t3 + dx\<rparr> else t3)
      in t4)"

text \<open>The new transform of a resize: the moved edges, the minimum of 10 by 10, then
  \<open>constrainToCanvas\<close>.\<close>

definition resizeTransform :: "string \<Rightarrow> real \<Rightarrow> real \<Rightarrow> transform \<Rightarrow> transform" where
  "resizeTransform h dx dy t0 =
     (let t4 = moveEdges h dx dy t0;
          t5 = (if tr_width t4 < 10 then t4\<lparr>tr_width := 10\<rparr> else t4);
          t6 = (if tr_height t5 < 10 then t5\<lparr>tr_height := 10\<rparr> else t5)
      in constrainToCanvas (tr_x t6) (tr_y t6) (tr_width t6) (tr_height t6) t6)"

text \<open>The path of a drawn object rescaled from the old transform to the new one.\<close>

definition scalePath :: "transform \<Rightarrow> transform \<Rightarrow> point list \<Rightarrow> point list" where
  "scalePath oldTransform newTransform pth =
     (let scaleX = tr_width newTransform / tr_width oldTransform;
          scaleY = tr_height newTransform / tr_height oldTransform;
          offsetX = tr_x newTransform - tr_x oldTransform;
          offsetY = tr_y newTransform - tr_y oldTransform
      in map (\<lambda>point.
           \<lparr>pt_x = tr_x oldTransform + (pt_x point - tr_x oldTransform) * scaleX + offsetX,
            pt_y = tr_y oldTransform + (pt_y point - tr_y oldTransform) * scaleY + offsetY\<rparr>) pth)"

text \<open>The resize branch. Both transforms come from the first selected object; every object
  with its id takes the new transform, and a drawn one has its own path rescaled.\<close>

definition resizeOne :: "transform \<Rightarrow> transform \<Rightarrow> canvas_object \<Rightarrow> canvas_object" where
  "resizeOne oldTransform newTransform obj =
     (case (if obj_type obj = Drawn then path (data obj) else None) of
        Some pth \<Rightarrow> setPath (scalePath oldTransform newTransform pth)
                      (setTransform newTransform obj)
      | None \<Rightarrow> setTransform newTransform obj)"

definition resizeSelected ::
    "string \<Rightarrow> real \<Rightarrow> real \<Rightarrow> canvas_object \<Rightarrow> canvas_object list \<Rightarrow> canvas_object list" where
  "resizeSelected h dx dy selected objs =
     (let oldTransform = transform selected;
          newTransform = resizeTransform h dx dy oldTransform
      in map (\<lambda>obj. if obj_id obj = obj_id selected
                     then resizeOne oldTransform newTransform obj
                     else obj) objs)"

text \<open>The move branch on one object: a group moves with its own transform only, a drawn
  object also has every point of its path moved by the delta, any other object is moved.\<close>

definition moveOne :: "transform \<Rightarrow> real \<Rightarrow> real \<Rightarrow> canvas_object \<Rightarrow> canvas_object" where
  "moveOne constrained deltaX deltaY obj =
     (let moved = setTransform ((transform obj)\<lparr>tr_x := tr_x constrained,
                                                tr_y := tr_y constrained\<rparr>) obj
      in if obj_type obj = Merged \<and> children obj \<noteq> None then moved
         else
           (case (if obj_type obj = Drawn then path (data obj) else None) of
              Some pth \<Rightarrow>
                setPath (map (\<lambda>point. \<lparr>pt_x = pt_x point + deltaX,
                                       pt_y = pt_y point + deltaY\<rparr>) pth) moved
            | None \<Rightarrow> moved))"

text \<open>The move branch: the new position is the pointer minus the grab offset, constrained
  with the size of the first selected object.\<close>

definition moveSelected ::
    "point \<Rightarrow> point \<Rightarrow> canvas_object \<Rightarrow> canvas_object list \<Rightarrow> canvas_object list" where
  "moveSelected pos off selected objs =
     (let newX = pt_x pos - pt_x off;
          newY = pt_y pos - pt_y off;
          constrained = constrainToCanvas newX newY (tr_width (transform selected))
                          (tr_height (transform selected)) (transform selected);
          deltaX = tr_x constrained - tr_x (transform selected);
          deltaY = tr_y constrained - tr_y (transform selected)
      in map (\<lambda>obj. if obj_id obj = obj_id selected
                     then moveOne constrained deltaX deltaY obj
                     else obj) objs)"

text \<open>The eraser branch: every object under the pointer takes the stroke.\<close>

definition eraseAt :: "point list \<Rightarrow> point \<Rightarrow> real \<Rightarrow> canvas_object list \<Rightarrow> canvas_object list" where
  "eraseAt pending pos sz objs =
     map (\<lambda>obj. if isPointInObject (pt_x pos) (pt_y pos) obj
                then applyEraserToObject obj pending pos sz None
                else obj) objs"

definition handleMouseMove :: "point \<Rightarrow> editor \<Rightarrow> failure + editor" where
  "handleMouseMove pos s0 =
     (let s1 = s0\<lparr>marqueeCurrent := Some pos, mousePosition := Some pos\<rparr>;
          s = (if shapeStart s0 \<noteq> None then s1\<lparr>shapeCurrent := Some pos\<rparr> else s1)
      in if currentTool s0 = BrushTool \<and> isDrawing s0
           then Inr (s\<lparr>currentPath := currentPath s0 @ [pos]\<rparr>)
         else if currentTool s0 = EraserTool \<and> isDrawing s0
           then Inr ((updateObjects (eraseAt (currentPath s0) pos (eraserSize s0) (objects s0)) s)
                       \<lparr>currentPath := [pos]\<rparr>)
         else if currentTool s0 = SelectTool \<and> dragStart s0 \<noteq> None
                 \<and> length (selectedIds s0) > 0 \<and> marqueeStart s0 = None
           then
             (case firstSelected s0 of
                None \<Rightarrow> Inr s
              | Some selected \<Rightarrow>
                  if resizeHandle s0 \<noteq> None \<and> resizeHandle s0 \<noteq> Some []
                  then
                    (if resizeHandle s0 = Some ''rotate''
                     then Inr (updateObjects (rotateSelected pos selected (objects s0)) s)
                     else
                       (let dx = pt_x pos - pt_x (the (dragStart s0));
                            dy = pt_y pos - pt_y (the (dragStart s0))
                        in Inr ((updateObjects
                                  (resizeSelected (the (resizeHandle s0)) dx dy selected (objects s0)) s)
                                  \<lparr>dragStart := Some pos\<rparr>)))
                  else
                    (case dragOffset s0 of
                       None \<Rightarrow> Inl TypeError
                     | Some off \<Rightarrow>
                         Inr (updateObjects (moveSelected pos off selected (objects s0)) s)))
         else Inr s)"

subsection \<open>Pointer up\<close>

text \<open>The extent of the drawn path, by the same \<open>forEach\<close> from \<open>Infinity, -Infinity\<close>
  as the merge's box.\<close>

fun growExtent :: "(real \<times> real \<times> real \<times> real) option \<Rightarrow> point
    \<Rightarrow> (real \<times> real \<times> real \<times> real) option" where
  "growExtent None p = Some (pt_x p, pt_y p, pt_x p, pt_y p)"
| "growExtent (Some (minX, minY, maxX, maxY)) p =
     Some (min minX (pt_x p), min minY (pt_y p), max maxX (pt_x p), max maxY (pt_y p))"

definition pathExtent :: "point list \<Rightarrow> (real \<times> real \<times> real \<times> real) option" where
  "pathExtent pth = foldl growExtent None pth"

text \<open>What every pointer-up ends with.\<close>

definition release :: "editor \<Rightarrow> editor" where
  "release s = s\<lparr>isDrawing := False, dragStart := None, resizeHandle := None,
                 rotateStart := None\<rparr>"

text \<open>The brush commit. The particles of a spray stroke are generated here, from the
  random values \<open>rnd\<close> of this event.\<close>

definition commitStroke :: "string \<Rightarrow> (nat \<Rightarrow> real) \<Rightarrow> editor \<Rightarrow> failure + editor" where
  "commitStroke stamp rnd s =
     (case pathExtent (currentPath s) of
        None \<Rightarrow> Inl NonFinite
      | Some (minX, minY, maxX, maxY) \<Rightarrow>
          (let padding = brushSize s;
               objectX = minX - padding;
               objectY = minY - padding;
               particles = (if activeBrushType s = Spray
                            then Some (generateSprayParticles rnd (currentPath s) (brushSize s)
                                         objectX objectY)
                            else None);
               newObject =
                 CanvasObject (''drawn-'' @ stamp) Drawn
                   \<lparr>tr_x = objectX, tr_y = objectY,
                    tr_width = maxX - minX + padding * 2,
                    tr_height = maxY - minY + padding * 2, tr_rotation = 0\<rparr>
                   \<lparr>strokeColor = brushColor s, fillColor = ''transparent'',
                    strokeWidth = brushSize s, opacity = Some (brushOpacity s)\<rparr>
                   (emptyData\<lparr>path := Some (currentPath s),
                              brushType := Some (activeBrushType s),
                              sprayParticles := particles,
                              erasedAreas := Some []\<rparr>)
                   None
           in Inr ((updateObjects (objects s @ [newObject]) s)\<lparr>currentPath := []\<rparr>)))"

text \<open>The shape commit: drafts up to 10 wide or high are dropped.\<close>

definition commitShape :: "string \<Rightarrow> object_type \<Rightarrow> point \<Rightarrow> point \<Rightarrow> editor \<Rightarrow> editor" where
  "commitShape stamp ty st cur s =
     (let x = min (pt_x st) (pt_x cur);
          y = min (pt_y st) (pt_y cur);
          w = \<bar>pt_x cur - pt_x st\<bar>;
          h = \<bar>pt_y cur - pt_y st\<bar>;
          s' = (if w > 10 \<and> h > 10 then
                  (let newObject =
                         CanvasObject (toolName (currentTool s) @ ''-'' @ stamp) ty
                           (constrainToCanvas x y w h
                              \<lparr>tr_x = x, tr_y = y, tr_width = w, tr_height = h, tr_rotation = 0\<rparr>)
                           \<lparr>strokeColor = ''#000000'',
                            fillColor = (if currentTool s = LineTool then ''transparent''
                                         else ''#e0e0e0''),
                            strokeWidth = 2, opacity = None\<rparr>
                           (emptyData\<lparr>erasedAreas := Some []\<rparr>)
                           None
                   in updateObjects (objects s @ [newObject]) s)
                else s)
      in s'\<lparr>shapeStart := None, shapeCurrent := None\<rparr>)"

text \<open>The marquee: the objects whose whole box lies in the rectangle.\<close>

definition commitMarquee :: "bool \<Rightarrow> point \<Rightarrow> point \<Rightarrow> editor \<Rightarrow> editor" where
  "commitMarquee multi st cur s =
     (let x1 = min (pt_x st) (pt_x cur);
          y1 = min (pt_y st) (pt_y cur);
          x2 = max (pt_x st) (pt_x cur);
          y2 = max (pt_y st) (pt_y cur);
          selectedObjects = filter (\<lambda>obj.
              tr_x (transform obj) \<ge> x1 \<and> tr_y (transform obj) \<ge> y1
              \<and> tr_x (transform obj) + tr_width (transform obj) \<le> x2
              \<and> tr_y (transform obj) + tr_height (transform obj) \<le> y2) (objects s);
          ids = (if multi
                 then selectedIds s @ filter (\<lambda>i. i \<notin> set (selectedIds s))
                                        (map obj_id selectedObjects)
                 else map obj_id selectedObjects)
      in s\<lparr>selectedIds := ids, marqueeStart := None, marqueeCurrent := None\<rparr>)"

definition handleMouseUp :: "string \<Rightarrow> (nat \<Rightarrow> real) \<Rightarrow> bool \<Rightarrow> editor \<Rightarrow> failure + editor" where
  "handleMouseUp stamp rnd multi s =
     (if currentTool s = BrushTool \<and> isDrawing s \<and> length (currentPath s) > 1
        then map_sum id release (commitStroke stamp rnd s)
      else if shapeType (currentTool s) \<noteq> None \<and> shapeStart s \<noteq> None \<and> shapeCurrent s \<noteq> None
        then Inr (release (commitShape stamp (the (shapeType (currentTool s)))
                             (the (shapeStart s)) (the (shapeCurrent s)) s))
      else if (currentTool s = SelectTool \<or> currentTool s = MergeTool)
              \<and> marqueeStart s \<noteq> None \<and> marqueeCurrent s \<noteq> None
        then Inr (release (commitMarquee multi (the (marqueeStart s)) (the (marqueeCurrent s)) s))
      else Inr (release s))"

text \<open>The tool panel's \<open>onToolChange\<close>.\<close>

definition setCurrentTool :: "tool \<Rightarrow> editor \<Rightarrow> editor" where
  "setCurrentTool t s = s\<lparr>currentTool := t\<rparr>"

text \<open>The brush panel's \<open>onBrushTypeChange\<close>.\<close>

definition setBrushType :: "brush_type \<Rightarrow> editor \<Rightarrow> editor" where
  "setBrushType b s = s\<lparr>activeBrushType := b\<rparr>"

section \<open>Notions used by the properties\<close>

text \<open>The test \<open>obj.type === 'merged' && obj.children\<close> that separates groups from regular
  objects (an empty array of children is truthy).\<close>

definition isGroup :: "canvas_object \<Rightarrow> bool" where
  "isGroup obj \<longleftrightarrow> obj_type obj = Merged \<and> children obj \<noteq> None"

text \<open>The current index points at a snapshot.\<close>

definition historyOk :: "'a app_scheme \<Rightarrow> bool" where
  "historyOk s \<longleftrightarrow> historyIndex s < length (history s)"

text \<open>The invariant on a transform: at least 10 by 10, and inside the canvas.\<close>

definition withinCanvas :: "transform \<Rightarrow> bool" where
  "withinCanvas t \<longleftrightarrow>
     tr_width t \<ge> 10 \<and> tr_height t \<ge> 10 \<and> 0 \<le> tr_x t \<and> tr_x t + tr_width t \<le> CANVAS_WIDTH
     \<and> 0 \<le> tr_y t \<and> tr_y t + tr_height t \<le> CANVAS_HEIGHT"

text \<open>Every top-level object satisfies the invariant.\<close>

definition allWithin :: "canvas_object list \<Rightarrow> bool" where
  "allWithin objs \<longleftrightarrow> (\<forall>obj \<in> set objs. withinCanvas (transform obj))"

text \<open>The stored strokes of an object, \<open>obj.data.erasedAreas || []\<close>.\<close>

definition strokesOf :: "canvas_object \<Rightarrow> mask_point list list" where
  "strokesOf obj = (case erasedAreas (data obj) of None \<Rightarrow> [] | Some e \<Rightarrow> e)"

subsection \<open>Descendants and their scale chain\<close>

text \<open>The descendant that a list of child indices leads to, with the composed scale
  chain of the groups passed on the way: the product of their \<open>width / originalWidth\<close>
  and the product of their \<open>height / originalHeight\<close>. Every group on the way has its
  original size recorded, and no size of it, current or original, is 0.\<close>

fun resolveChain :: "nat list \<Rightarrow> canvas_object \<Rightarrow> (real \<times> real \<times> canvas_object) option" where
  "resolveChain [] obj = Some (1, 1, obj)"
| "resolveChain (i # rest) obj =
     (case (children obj, originalWidth (data obj), originalHeight (data obj)) of
        (Some kids, Some ow, Some oh) \<Rightarrow>
          if obj_type obj = Merged \<and> i < length kids \<and> ow \<noteq> 0 \<and> oh \<noteq> 0
             \<and> tr_width (transform obj) \<noteq> 0 \<and> tr_height (transform obj) \<noteq> 0
          then
            (case resolveChain rest (kids ! i) of
               Some (sx, sy, leaf) \<Rightarrow>
                 Some (tr_width (transform obj) / ow * sx,
                       tr_height (transform obj) / oh * sy, leaf)
             | None \<Rightarrow> None)
          else None
      | _ \<Rightarrow> None)"

text \<open>The erase sample at \<open>pos\<close> is resolved onto that descendant: at every group on the
  way, the box of the child taken contains the position projected into the group's frame.\<close>

fun reaches :: "nat list \<Rightarrow> canvas_object \<Rightarrow> point \<Rightarrow> parent_transform option \<Rightarrow> bool" where
  "reaches [] obj pos pt = True"
| "reaches (i # rest) obj pos pt =
     (case children obj of
        Some kids \<Rightarrow>
          i < length kids
          \<and> childHit (groupLocal (transform obj) (data obj)
                         (groupAbsolute (transform obj) (data obj) pt) pos) (kids ! i)
          \<and> reaches rest (kids ! i) pos (Some (groupAbsolute (transform obj) (data obj) pt))
      | None \<Rightarrow> False)"

text \<open>The scale of the frame an object is resolved in; a top-level object has none.\<close>

definition frameScaleX :: "parent_transform option \<Rightarrow> real" where
  "frameScaleX pt = (case pt of None \<Rightarrow> 1 | Some p \<Rightarrow> par_scaleX p)"

definition frameScaleY :: "parent_transform option \<Rightarrow> real" where
  "frameScaleY pt = (case pt of None \<Rightarrow> 1 | Some p \<Rightarrow> par_scaleY p)"

subsection \<open>Children of a new group\<close>

text \<open>A child of a new group against the selected object it comes from: the same object
  with its position, and for a drawn object every point of its path, moved by minus the
  group's origin.\<close>

definition shiftedBy :: "real \<Rightarrow> real \<Rightarrow> canvas_object \<Rightarrow> canvas_object \<Rightarrow> bool" where
  "shiftedBy gx gy obj child \<longleftrightarrow>
     obj_id child = obj_id obj \<and> obj_type child = obj_type obj \<and> style child = style obj
     \<and> children child = children obj
     \<and> transform child = (transform obj)\<lparr>tr_x := tr_x (transform obj) - gx,
                                         tr_y := tr_y (transform obj) - gy\<rparr>
     \<and> data child = (data obj)\<lparr>path :=
           (if obj_type obj = Drawn
            then map_option (map (\<lambda>q. \<lparr>pt_x = pt_x q - gx, pt_y = pt_y q - gy\<rparr>))
                   (path (data obj))
            else path (data obj))\<rparr>"

subsection \<open>Runs of events\<close>

text \<open>One event after another; a failure ends the run.\<close>

definition thenEvent ::
    "failure + editor \<Rightarrow> (editor \<Rightarrow> failure + editor) \<Rightarrow> failure + editor" where
  "thenEvent r f = (case r of Inl e \<Rightarrow> Inl e | Inr s \<Rightarrow> f s)"

text \<open>The top-level objects after an event.\<close>

definition storedObjects :: "failure + editor \<Rightarrow> failure + canvas_object list" where
  "storedObjects r = map_sum id objects r"

text \<open>The transforms of the top-level objects after an event.\<close>

definition storedTransforms :: "failure + editor \<Rightarrow> failure + transform list" where
  "storedTransforms r = map_sum id (\<lambda>s. map transform (objects s)) r"

text \<open>What the pointer flow stores: the strokes of every top-level object after an event.\<close>

definition storedStrokes :: "failure + editor \<Rightarrow> failure + mask_point list list list" where
  "storedStrokes r = map_sum id (\<lambda>s. map strokesOf (objects s)) r"

text \<open>The particle lists of the top-level objects after an event.\<close>

definition storedParticles :: "failure + editor \<Rightarrow> failure + particle list option list" where
  "storedParticles r = map_sum id (\<lambda>s. map (\<lambda>obj. sprayParticles (data obj)) (objects s)) r"

subsection \<open>Objects and scenes of the scenarios\<close>

text \<open>A rectangle as the shape commit creates it.\<close>

definition rectangleAt :: "string \<Rightarrow> real \<Rightarrow> real \<Rightarrow> real \<Rightarrow> real \<Rightarrow> canvas_object" where
  "rectangleAt ident x y w h =
     CanvasObject ident Rectangle
       \<lparr>tr_x = x, tr_y = y, tr_width = w, tr_height = h, tr_rotation = 0\<rparr>
       \<lparr>strokeColor = ''#000000'', fillColor = ''#e0e0e0'', strokeWidth = 2, opacity = None\<rparr>
       (emptyData\<lparr>erasedAreas := Some []\<rparr>) None"

text \<open>A drawn object as the brush commit creates it, with a given path and box.\<close>

definition strokeAt :: "string \<Rightarrow> point list \<Rightarrow> real \<Rightarrow> real \<Rightarrow> real \<Rightarrow> real \<Rightarrow> canvas_object" where
  "strokeAt ident pth x y w h =
     CanvasObject ident Drawn
       \<lparr>tr_x = x, tr_y = y, tr_width = w, tr_height = h, tr_rotation = 0\<rparr>
       \<lparr>strokeColor = ''#000000'', fillColor = ''transparent'', strokeWidth = 5, opacity = Some 1\<rparr>
       (emptyData\<lparr>path := Some pth, brushType := Some Normal, erasedAreas := Some []\<rparr>) None"

text \<open>A group as the merge creates it, with a given box, original size and children.\<close>

definition groupAt ::
    "string \<Rightarrow> real \<Rightarrow> real \<Rightarrow> real \<Rightarrow> real \<Rightarrow> real \<Rightarrow> real \<Rightarrow> canvas_object list \<Rightarrow> canvas_object" where
  "groupAt ident x y w h ow oh kids =
     CanvasObject ident Merged
       \<lparr>tr_x = x, tr_y = y, tr_width = w, tr_height = h, tr_rotation = 0\<rparr>
       \<lparr>strokeColor = ''#000000'', fillColor = ''transparent'', strokeWidth = 2, opacity = None\<rparr>
       (emptyData\<lparr>originalWidth := Some ow, originalHeight := Some oh\<rparr>)
       (Some kids)"

text \<open>An object with given stored strokes.\<close>

definition withStrokes :: "mask_point list list \<Rightarrow> canvas_object \<Rightarrow> canvas_object" where
  "withStrokes strokes obj =
     CanvasObject (obj_id obj) (obj_type obj) (transform obj) (style obj)
       ((data obj)\<lparr>erasedAreas := Some strokes\<rparr>) (children obj)"

text \<open>The editor after a number of commits: the given objects, selection and history.\<close>

definition sceneOf ::
    "canvas_object list \<Rightarrow> string list \<Rightarrow> canvas_object list list \<Rightarrow> nat \<Rightarrow> editor" where
  "sceneOf objs sel snaps i =
     initialEditor\<lparr>objects := objs, selectedIds := sel,
                   history := map (\<lambda>os. \<lparr>snapshot = os\<rparr>) snaps, historyIndex := i\<rparr>"

text \<open>A property edit that names a transform and nothing else.\<close>

definition transformEdit :: "transform \<Rightarrow> updates" where
  "transformEdit t = \<lparr>u_id = None, u_type = None, u_transform = Some t, u_style = None,
     u_data = None, u_children = None\<rparr>"

text \<open>A source of random values that always returns one half.\<close>

definition halves :: "nat \<Rightarrow> real" where
  "halves n = 1 / 2"

text \<open>The editor in the middle of a spray stroke from (10, 10) to (13, 14), with the
  default brush size of 5.\<close>

definition sprayStroke :: editor where
  "sprayStroke =
     initialEditor\<lparr>currentTool := BrushTool, activeBrushType := Spray, isDrawing := True,
                   currentPath := [\<lparr>pt_x = 10, pt_y = 10\<rparr>, \<lparr>pt_x = 13, pt_y = 14\<rparr>],
                   marqueeCurrent := Some \<lparr>pt_x = 13, pt_y = 14\<rparr>,
                   mousePosition := Some \<lparr>pt_x = 13, pt_y = 14\<rparr>\<rparr>"

section \<open>Properties\<close>

subsection \<open>Shape of the eraser's recursion\<close>

lemma applyEraser_regular:
  "\<not> isGroup obj \<Longrightarrow> applyEraserToObject obj cp pos sz pt = eraseRegular obj cp pos sz pt"
  by (cases obj) (auto simp: isGroup_def split: option.splits)

lemma applyEraser_group:
  "obj_type obj = Merged \<Longrightarrow> children obj = Some kids \<Longrightarrow>
   applyEraserToObject obj cp pos sz pt =
     CanvasObject (obj_id obj) Merged (transform obj) (style obj) (data obj)
       (Some (map (\<lambda>child.
          if childHit (groupLocal (transform obj) (data obj)
                 (groupAbsolute (transform obj) (data obj) pt) pos) child
          then applyEraserToObject child cp pos sz
                 (Some (groupAbsolute (transform obj) (data obj) pt))
          else child) kids))"
  by (cases obj) auto

subsection \<open>History\<close>

text \<open>The index points at a snapshot initially, after every commit, and after undo and
  redo.\<close>

lemma addToHistory_ok: "historyOk (addToHistory objs s)"
  by (simp add: historyOk_def addToHistory_def Let_def)

lemma updateObjects_ok: "historyOk (updateObjects objs s)"
  by (simp add: updateObjects_def addToHistory_ok)

lemma initialEditor_ok: "historyOk initialEditor"
  by (simp add: historyOk_def initialEditor_def)

lemma handleUndo_ok: "historyOk s \<Longrightarrow> handleUndo s = Inr s' \<Longrightarrow> historyOk s'"
  by (auto simp: historyOk_def handleUndo_def split: if_splits)

lemma handleRedo_ok: "historyOk s \<Longrightarrow> handleRedo s = Inr s' \<Longrightarrow> historyOk s'"
  by (auto simp: historyOk_def handleRedo_def split: if_splits)

text \<open>
  C5. With the index at a snapshot (as it is initially and after every commit), undo
  moves the index down by one, makes that snapshot's objects the live list and clears the
  selection; redo does the same one up; the history itself is untouched. At index 0 undo,
  and at the last snapshot redo, return the state as it is, and none of them fails.
\<close>

theorem undo_redo_step:
  assumes "historyOk s"
  shows "(0 < historyIndex s \<longrightarrow>
            (\<exists>s'. handleUndo s = Inr s' \<and> historyIndex s' = historyIndex s - 1
               \<and> objects s' = snapshot (history s ! (historyIndex s - 1))
               \<and> selectedIds s' = [] \<and> history s' = history s))
       \<and> (historyIndex s + 1 < length (history s) \<longrightarrow>
            (\<exists>s'. handleRedo s = Inr s' \<and> historyIndex s' = historyIndex s + 1
               \<and> objects s' = snapshot (history s ! (historyIndex s + 1))
               \<and> selectedIds s' = [] \<and> history s' = history s))
       \<and> (historyIndex s = 0 \<longrightarrow> handleUndo s = Inr s)
       \<and> (historyIndex s + 1 = length (history s) \<longrightarrow> handleRedo s = Inr s)"
  using assms by (auto simp: historyOk_def handleUndo_def handleRedo_def)

theorem undo_redo_step_witness:
  "historyOk (sceneOf [rectangleAt ''a'' 0 0 50 50] [''a'']
       [[], [rectangleAt ''a'' 0 0 50 50],
        [rectangleAt ''a'' 0 0 50 50, rectangleAt ''b'' 100 100 50 50]] 1)
   \<and> handleUndo (sceneOf [rectangleAt ''a'' 0 0 50 50] [''a'']
       [[], [rectangleAt ''a'' 0 0 50 50],
        [rectangleAt ''a'' 0 0 50 50, rectangleAt ''b'' 100 100 50 50]] 1)
     = Inr (sceneOf [] []
       [[], [rectangleAt ''a'' 0 0 50 50],
        [rectangleAt ''a'' 0 0 50 50, rectangleAt ''b'' 100 100 50 50]] 0)
   \<and> handleRedo (sceneOf [rectangleAt ''a'' 0 0 50 50] [''a'']
       [[], [rectangleAt ''a'' 0 0 50 50],
        [rectangleAt ''a'' 0 0 50 50, rectangleAt ''b'' 100 100 50 50]] 1)
     = Inr (sceneOf [rectangleAt ''a'' 0 0 50 50, rectangleAt ''b'' 100 100 50 50] []
       [[], [rectangleAt ''a'' 0 0 50 50],
        [rectangleAt ''a'' 0 0 50 50, rectangleAt ''b'' 100 100 50 50]] 2)
   \<and> handleUndo (sceneOf [] [''a''] [[], [rectangleAt ''a'' 0 0 50 50]] 0)
     = Inr (sceneOf [] [''a''] [[], [rectangleAt ''a'' 0 0 50 50]] 0)
   \<and> handleRedo (sceneOf [rectangleAt ''a'' 0 0 50 50] [''a'']
       [[], [rectangleAt ''a'' 0 0 50 50]] 1)
     = Inr (sceneOf [rectangleAt ''a'' 0 0 50 50] [''a''] [[], [rectangleAt ''a'' 0 0 50 50]] 1)"
  using undo_redo_step [of "sceneOf [rectangleAt ''a'' 0 0 50 50] [''a'']
       [[], [rectangleAt ''a'' 0 0 50 50],
        [rectangleAt ''a'' 0 0 50 50, rectangleAt ''b'' 100 100 50 50]] 1"]
    undo_redo_step [of "sceneOf [] [''a''] [[], [rectangleAt ''a'' 0 0 50 50]] 0"]
    undo_redo_step [of "sceneOf [rectangleAt ''a'' 0 0 50 50] [''a'']
       [[], [rectangleAt ''a'' 0 0 50 50]] 1"]
  by (simp add: historyOk_def sceneOf_def initialEditor_def handleUndo_def handleRedo_def)

subsection \<open>Hit-testing\<close>

text \<open>
  C8, as the code has it. A drawn object whose stored path is empty has no segment to be
  near, and the test falls through to the bounding box: the point hits exactly when it
  lies in the object's unrotated box, and misses outside it.
\<close>

theorem empty_path_hit_is_box:
  assumes "obj_type obj = Drawn" and "path (data obj) = Some []"
  shows "isPointInObject x y obj \<longleftrightarrow> inBox x y (transform obj)"
  using assms by (simp add: isPointInObject_def)

theorem empty_path_hit_is_box_witness:
  "obj_type (strokeAt ''drawn-1'' [] 0 0 100 100) = Drawn
   \<and> path (data (strokeAt ''drawn-1'' [] 0 0 100 100)) = Some []
   \<and> isPointInObject 50 50 (strokeAt ''drawn-1'' [] 0 0 100 100)
   \<and> \<not> isPointInObject 150 50 (strokeAt ''drawn-1'' [] 0 0 100 100)"
  using empty_path_hit_is_box [of "strokeAt ''drawn-1'' [] 0 0 100 100" 50 50]
    empty_path_hit_is_box [of "strokeAt ''drawn-1'' [] 0 0 100 100" 150 50]
  by (simp add: strokeAt_def inBox_def emptyData_def)

text \<open>The claim as stated fails: the centre of the box of a drawn object with an empty
  path is hit.\<close>

theorem empty_path_hit_counterexample:
  "\<not> (isPointInObject 50 50 (strokeAt ''drawn-1'' [] 0 0 100 100) = False)"
  by (simp add: isPointInObject_def inBox_def strokeAt_def emptyData_def)

subsection \<open>Erasing\<close>

lemmas fixture_defs =
  rectangleAt_def groupAt_def strokeAt_def withStrokes_def emptyData_def sceneOf_def
  initialEditor_def

lemmas eraser_defs =
  eraseRegular_def localPath_def normalizeTop_def normalizeNested_def groupAbsolute_def
  groupLocal_def groupScaleX_def groupScaleY_def orElse_def childHit_def inBox_def

lemma localPath_sizes:
  "m \<in> set (localPath fr t d cp pos) \<Longrightarrow>
   mp_size m = d / min (tr_width t) (tr_height t) / frameScaleX fr"
  by (cases fr)
     (auto simp: localPath_def frameScaleX_def normalizeTop_def normalizeNested_def Let_def)

lemma localPath_length: "length (localPath fr t d cp pos) = length cp + 1"
  by (cases fr) (auto simp: localPath_def)

lemma strokesOf_eraseRegular:
  "strokesOf (eraseRegular obj cp pos d fr)
     = strokesOf obj @ [localPath fr (transform obj) d cp pos]"
  by (simp add: strokesOf_def eraseRegular_def Let_def)

lemma eraseAt_length: "length (eraseAt cp pos d objs) = length objs"
  by (simp add: eraseAt_def)

lemma eraseAt_nth:
  "i < length objs \<Longrightarrow> isPointInObject (pt_x pos) (pt_y pos) (objs ! i) \<Longrightarrow>
   eraseAt cp pos d objs ! i = applyEraserToObject (objs ! i) cp pos d None"
  by (simp add: eraseAt_def)

lemma eraser_move:
  "currentTool s = EraserTool \<Longrightarrow> isDrawing s \<Longrightarrow>
   \<exists>s'. handleMouseMove p s = Inr s'
      \<and> objects s' = eraseAt (currentPath s) p (eraserSize s) (objects s)"
  by (simp add: handleMouseMove_def updateObjects_def addToHistory_def Let_def)

text \<open>
  C2, as the code has it. One erase sample at \<open>p\<close> (a pointer move with the eraser down)
  gives every hit regular top-level object one new stroke, appended to its erased areas.
  The stroke holds the pending eraser path (in the pointer flow: the previous sample)
  and then \<open>p\<close>, each point normalised to \<open>((q.x - x) / width, (q.y - y) / height)\<close> with
  size \<open>d / min(width, height)\<close>, for the eraser's diameter \<open>d\<close>.
\<close>

theorem erase_sample_appends_stroke:
  assumes "currentTool s = EraserTool" and "isDrawing s"
    and "i < length (objects s)" and "\<not> isGroup (objects s ! i)"
    and "isPointInObject (pt_x p) (pt_y p) (objects s ! i)"
    and "t = transform (objects s ! i)"
    and "tr_width t \<noteq> 0" and "tr_height t \<noteq> 0"
  shows "\<exists>s'. handleMouseMove p s = Inr s' \<and> length (objects s') = length (objects s)
           \<and> strokesOf (objects s' ! i) = strokesOf (objects s ! i) @
               [map (\<lambda>q. \<lparr>mp_x = (pt_x q - tr_x t) / tr_width t,
                          mp_y = (pt_y q - tr_y t) / tr_height t,
                          mp_size = eraserSize s / min (tr_width t) (tr_height t)\<rparr>)
                    (currentPath s @ [p])]"
proof -
  from eraser_move[OF assms(1,2), of p] obtain s' where
    m: "handleMouseMove p s = Inr s'"
    and o: "objects s' = eraseAt (currentPath s) p (eraserSize s) (objects s)" by blast
  have "objects s' ! i = eraseRegular (objects s ! i) (currentPath s) p (eraserSize s) None"
    using o assms(3,4,5) by (simp add: eraseAt_nth applyEraser_regular)
  then have "strokesOf (objects s' ! i) = strokesOf (objects s ! i) @
               [map (\<lambda>q. \<lparr>mp_x = (pt_x q - tr_x t) / tr_width t,
                          mp_y = (pt_y q - tr_y t) / tr_height t,
                          mp_size = eraserSize s / min (tr_width t) (tr_height t)\<rparr>)
                    (currentPath s @ [p])]"
    using assms(6) by (simp add: strokesOf_eraseRegular localPath_def normalizeTop_def)
  with m o show ?thesis by (simp add: eraseAt_length)
qed

text \<open>The scenario of the specification: a diameter of 20 on a 100 by 100 object. The
  eraser goes down at its centre and the first sample comes at the same place: the stored
  stroke has the two points, each of size 0.2.\<close>

theorem erase_sample_appends_stroke_witness:
  "currentTool (handleMouseDown \<lparr>pt_x = 50, pt_y = 50\<rparr> False
      (setCurrentTool EraserTool
        (sceneOf [rectangleAt ''r'' 0 0 100 100] [] [[], [rectangleAt ''r'' 0 0 100 100]] 1)))
     = EraserTool
   \<and> isDrawing (handleMouseDown \<lparr>pt_x = 50, pt_y = 50\<rparr> False
      (setCurrentTool EraserTool
        (sceneOf [rectangleAt ''r'' 0 0 100 100] [] [[], [rectangleAt ''r'' 0 0 100 100]] 1)))
   \<and> \<not> isGroup (rectangleAt ''r'' 0 0 100 100)
   \<and> isPointInObject 50 50 (rectangleAt ''r'' 0 0 100 100)
   \<and> storedStrokes (handleMouseMove \<lparr>pt_x = 50, pt_y = 50\<rparr>
      (handleMouseDown \<lparr>pt_x = 50, pt_y = 50\<rparr> False
        (setCurrentTool EraserTool
          (sceneOf [rectangleAt ''r'' 0 0 100 100] [] [[], [rectangleAt ''r'' 0 0 100 100]] 1))))
     = Inr [[[\<lparr>mp_x = 1/2, mp_y = 1/2, mp_size = 1/5\<rparr>,
              \<lparr>mp_x = 1/2, mp_y = 1/2, mp_size = 1/5\<rparr>]]]"
  using erase_sample_appends_stroke [of "handleMouseDown \<lparr>pt_x = 50, pt_y = 50\<rparr> False
      (setCurrentTool EraserTool
        (sceneOf [rectangleAt ''r'' 0 0 100 100] [] [[], [rectangleAt ''r'' 0 0 100 100]] 1))"
      0 "\<lparr>pt_x = 50, pt_y = 50\<rparr>" "transform (rectangleAt ''r'' 0 0 100 100)"]
  by (simp add: storedStrokes_def handleMouseMove_def handleMouseDown_def setCurrentTool_def
      eraseAt_def isPointInObject_def updateObjects_def addToHistory_def CANVAS_WIDTH_def
      CANVAS_HEIGHT_def fixture_defs eraser_defs strokesOf_def isGroup_def Let_def)

text \<open>The claim as stated fails in the pointer flow: with the eraser down at (40, 40) and
  one sample at (50, 50), the object stores two mask points, not the one for (50, 50).\<close>

theorem erase_sample_counterexample:
  "storedStrokes (handleMouseMove \<lparr>pt_x = 50, pt_y = 50\<rparr>
      (handleMouseDown \<lparr>pt_x = 40, pt_y = 40\<rparr> False
        (setCurrentTool EraserTool
          (sceneOf [rectangleAt ''r'' 0 0 100 100] [] [[], [rectangleAt ''r'' 0 0 100 100]] 1))))
     = Inr [[[\<lparr>mp_x = 2/5, mp_y = 2/5, mp_size = 1/5\<rparr>,
              \<lparr>mp_x = 1/2, mp_y = 1/2, mp_size = 1/5\<rparr>]]]
   \<and> storedStrokes (handleMouseMove \<lparr>pt_x = 50, pt_y = 50\<rparr>
      (handleMouseDown \<lparr>pt_x = 40, pt_y = 40\<rparr> False
        (setCurrentTool EraserTool
          (sceneOf [rectangleAt ''r'' 0 0 100 100] [] [[], [rectangleAt ''r'' 0 0 100 100]] 1))))
     \<noteq> Inr [[[\<lparr>mp_x = 1/2, mp_y = 1/2, mp_size = 1/5\<rparr>]]]"
  by (simp add: storedStrokes_def handleMouseMove_def handleMouseDown_def setCurrentTool_def
      eraseAt_def isPointInObject_def updateObjects_def addToHistory_def CANVAS_WIDTH_def
      CANVAS_HEIGHT_def fixture_defs eraser_defs strokesOf_def Let_def)

lemma groupAbsolute_scaleX:
  "originalWidth dt = Some ow \<Longrightarrow> ow \<noteq> 0 \<Longrightarrow>
   par_scaleX (groupAbsolute t dt pt) = frameScaleX pt * (tr_width t / ow)"
  by (cases pt) (auto simp: groupAbsolute_def frameScaleX_def groupScaleX_def orElse_def)

lemma groupAbsolute_scaleY:
  "originalHeight dt = Some oh \<Longrightarrow> oh \<noteq> 0 \<Longrightarrow>
   par_scaleY (groupAbsolute t dt pt) = frameScaleY pt * (tr_height t / oh)"
  by (cases pt) (auto simp: groupAbsolute_def frameScaleY_def groupScaleY_def orElse_def)

text \<open>The recursion hands every level the frame of its ancestors: by induction on the
  list of child indices, for any frame the walk starts in.\<close>

lemma resolve_in_frame:
  assumes "resolveChain ix obj = Some (sx, sy, leaf)" and "\<not> isGroup leaf"
    and "reaches ix obj pos pt"
  shows "\<exists>fr. resolveChain ix (applyEraserToObject obj cp pos d pt)
                 = Some (sx, sy, eraseRegular leaf cp pos d fr)
            \<and> frameScaleX fr = frameScaleX pt * sx \<and> frameScaleY fr = frameScaleY pt * sy"
  using assms
proof (induction ix arbitrary: obj pt sx sy)
  case Nil
  then show ?case by (auto simp: applyEraser_regular)
next
  case (Cons i rest)
  from Cons.prems(1) obtain kids ow oh sx' sy' where
    k: "children obj = Some kids" and w: "originalWidth (data obj) = Some ow"
    and h: "originalHeight (data obj) = Some oh" and m: "obj_type obj = Merged"
    and i: "i < length kids" and nz: "ow \<noteq> 0" "oh \<noteq> 0"
    and r: "resolveChain rest (kids ! i) = Some (sx', sy', leaf)"
    and sx: "sx = tr_width (transform obj) / ow * sx'"
    and sy: "sy = tr_height (transform obj) / oh * sy'"
    by (auto split: option.splits if_splits)
  let ?ab = "groupAbsolute (transform obj) (data obj) pt"
  from Cons.prems(3) k
  have hit: "childHit (groupLocal (transform obj) (data obj) ?ab pos) (kids ! i)"
    and re: "reaches rest (kids ! i) pos (Some ?ab)" by auto
  from Cons.IH[OF r Cons.prems(2) re] obtain fr where
    fr: "resolveChain rest (applyEraserToObject (kids ! i) cp pos d (Some ?ab))
           = Some (sx', sy', eraseRegular leaf cp pos d fr)"
    and fx: "frameScaleX fr = frameScaleX (Some ?ab) * sx'"
    and fy: "frameScaleY fr = frameScaleY (Some ?ab) * sy'" by blast
  have "resolveChain (i # rest) (applyEraserToObject obj cp pos d pt)
          = Some (sx, sy, eraseRegular leaf cp pos d fr)"
    using k w h m i nz r sx sy hit fr Cons.prems(1)
    by (simp add: applyEraser_group[OF m k] split: if_splits)
  moreover have "frameScaleX fr = frameScaleX pt * sx"
    using fx groupAbsolute_scaleX[OF w nz(1), of "transform obj" pt]
    by (simp add: frameScaleX_def sx)
  moreover have "frameScaleY fr = frameScaleY pt * sy"
    using fy groupAbsolute_scaleY[OF h nz(2), of "transform obj" pt]
    by (simp add: frameScaleY_def sy)
  ultimately show ?case by blast
qed

text \<open>
  C3. Let a list of child indices lead from a top-level object through groups, at any
  depth, to a regular object \<open>leaf\<close>, with \<open>sx\<close> the product of the groups'
  \<open>width / originalWidth\<close> and \<open>sy\<close> the product of their \<open>height / originalHeight\<close>,
  and let the erase sample at \<open>pos\<close> be resolved onto that leaf. Then the eraser leaves
  the chain as it is and gives the leaf one new stroke, resolved in a frame whose scale is
  exactly \<open>(sx, sy)\<close>; every point of the stroke has size
  \<open>d / min(leafWidth, leafHeight) / sx\<close>. The size is divided by the chain of the widths;
  the chain of the heights scales the vertical coordinate.
\<close>

theorem nested_erase_size:
  assumes "resolveChain ix obj = Some (sx, sy, leaf)" and "\<not> isGroup leaf"
    and "reaches ix obj pos None"
    and "tr_width (transform leaf) \<noteq> 0" and "tr_height (transform leaf) \<noteq> 0"
  shows "\<exists>fr stroke.
           resolveChain ix (applyEraserToObject obj cp pos d None)
             = Some (sx, sy, eraseRegular leaf cp pos d fr)
         \<and> frameScaleX fr = sx \<and> frameScaleY fr = sy
         \<and> strokesOf (eraseRegular leaf cp pos d fr) = strokesOf leaf @ [stroke]
         \<and> length stroke = length cp + 1
         \<and> (\<forall>m \<in> set stroke.
               mp_size m = d / min (tr_width (transform leaf)) (tr_height (transform leaf)) / sx)"
proof -
  from resolve_in_frame[OF assms(1-3), of cp d] obtain fr where
    a: "resolveChain ix (applyEraserToObject obj cp pos d None)
          = Some (sx, sy, eraseRegular leaf cp pos d fr)"
    and b: "frameScaleX fr = sx" "frameScaleY fr = sy"
    by (auto simp: frameScaleX_def frameScaleY_def)
  show ?thesis
    using a b localPath_sizes[of _ fr "transform leaf" d cp pos]
    by (intro exI[of _ fr] exI[of _ "localPath fr (transform leaf) d cp pos"])
       (simp add: strokesOf_eraseRegular localPath_length)
qed

text \<open>Two levels deep: a 50 by 50 rectangle in a group shown at twice its original size,
  itself in a group shown at twice its original size. The chain is 4, and a diameter of 20
  is stored as 20 / 50 / 4.\<close>

theorem nested_erase_size_witness:
  "resolveChain [0, 0]
      (groupAt ''g'' 0 0 200 200 100 100
         [groupAt ''h'' 0 0 100 100 50 50 [rectangleAt ''r'' 0 0 50 50]])
     = Some (4, 4, rectangleAt ''r'' 0 0 50 50)
   \<and> \<not> isGroup (rectangleAt ''r'' 0 0 50 50)
   \<and> reaches [0, 0]
      (groupAt ''g'' 0 0 200 200 100 100
         [groupAt ''h'' 0 0 100 100 50 50 [rectangleAt ''r'' 0 0 50 50]])
      \<lparr>pt_x = 100, pt_y = 100\<rparr> None
   \<and> tr_width (transform (rectangleAt ''r'' 0 0 50 50)) \<noteq> 0
   \<and> tr_height (transform (rectangleAt ''r'' 0 0 50 50)) \<noteq> 0
   \<and> resolveChain [0, 0] (applyEraserToObject
      (groupAt ''g'' 0 0 200 200 100 100
         [groupAt ''h'' 0 0 100 100 50 50 [rectangleAt ''r'' 0 0 50 50]])
      [] \<lparr>pt_x = 100, pt_y = 100\<rparr> 20 None)
     = Some (4, 4, withStrokes [[\<lparr>mp_x = 1/2, mp_y = 1/2, mp_size = 1/10\<rparr>]]
                     (rectangleAt ''r'' 0 0 50 50))"
  using nested_erase_size [of "[0, 0]"
      "groupAt ''g'' 0 0 200 200 100 100
         [groupAt ''h'' 0 0 100 100 50 50 [rectangleAt ''r'' 0 0 50 50]]"
      4 4 "rectangleAt ''r'' 0 0 50 50" "\<lparr>pt_x = 100, pt_y = 100\<rparr>" "[]" 20]
  by (simp add: fixture_defs eraser_defs isGroup_def strokesOf_def Let_def)



subsection \<open>Merge\<close>

text \<open>The \<open>forEach\<close> computes the union of the boxes.\<close>

lemma foldl_growBox:
  "foldl growBox (Some (a, b, c, d)) objs =
     Some (Min (insert a ((\<lambda>ob. tr_x (transform ob)) ` set objs)),
           Min (insert b ((\<lambda>ob. tr_y (transform ob)) ` set objs)),
           Max (insert c ((\<lambda>ob. tr_x (transform ob) + tr_width (transform ob)) ` set objs)),
           Max (insert d ((\<lambda>ob. tr_y (transform ob) + tr_height (transform ob)) ` set objs)))"
proof (induction objs arbitrary: a b c d)
  case Nil
  then show ?case by simp
next
  case (Cons x xs)
  have m: "\<And>(u::real) v A. finite A \<Longrightarrow> Min (insert (min u v) A) = Min (insert u (insert v A))"
    by (metis Min_insert finite.insertI insert_not_empty min.assoc Min_singleton)
  have M: "\<And>(u::real) v A. finite A \<Longrightarrow> Max (insert (max u v) A) = Max (insert u (insert v A))"
    by (metis Max_insert finite.insertI insert_not_empty max.assoc Max_singleton)
  show ?case by (simp add: Cons.IH Let_def m M)
qed

lemma boundingBox_nonempty:
  assumes "objs \<noteq> []"
  shows "boundingBox objs =
     Some (Min ((\<lambda>ob. tr_x (transform ob)) ` set objs),
           Min ((\<lambda>ob. tr_y (transform ob)) ` set objs),
           Max ((\<lambda>ob. tr_x (transform ob) + tr_width (transform ob)) ` set objs),
           Max ((\<lambda>ob. tr_y (transform ob) + tr_height (transform ob)) ` set objs))"
proof -
  from assms obtain x xs where "objs = x # xs" by (cases objs) auto
  then show ?thesis by (simp add: boundingBox_def foldl_growBox Let_def)
qed

lemma toRelative_shifted: "shiftedBy gx gy obj (toRelative gx gy obj)"
  by (cases "path (data obj)") (auto simp: shiftedBy_def toRelative_def Let_def)

text \<open>
  C4. With two or more ids selected, of which \<open>sel\<close> are the selected top-level objects
  (in their order, at least one), merge returns a state in which the selected objects are
  gone from the top level and one group \<open>g\<close> is appended and is the sole selection. The
  group's size is that of the union \<open>[minX, maxX] \<times> [minY, maxY]\<close> of the selected
  objects' boxes, its origin is the union's origin clamped to the canvas, its rotation
  is 0, its original size is the union's size, and its children are the selected objects
  in order, each moved by minus the clamped origin (with the points of a drawn object's
  path).
\<close>

theorem merge_creates_group:
  assumes "2 \<le> length (selectedIds s)"
    and "sel = filter (\<lambda>obj. obj_id obj \<in> set (selectedIds s)) (objects s)"
    and "sel \<noteq> []"
    and "minX = Min ((\<lambda>ob. tr_x (transform ob)) ` set sel)"
    and "minY = Min ((\<lambda>ob. tr_y (transform ob)) ` set sel)"
    and "maxX = Max ((\<lambda>ob. tr_x (transform ob) + tr_width (transform ob)) ` set sel)"
    and "maxY = Max ((\<lambda>ob. tr_y (transform ob) + tr_height (transform ob)) ` set sel)"
    and "gx = max 0 (min minX (1200 - (maxX - minX)))"
    and "gy = max 0 (min minY (800 - (maxY - minY)))"
  shows "\<exists>s' g kids. handleMerge stamp s = Inr s'
      \<and> objects s' = filter (\<lambda>obj. obj_id obj \<notin> set (selectedIds s)) (objects s) @ [g]
      \<and> selectedIds s' = [obj_id g]
      \<and> obj_type g = Merged
      \<and> transform g = \<lparr>tr_x = gx, tr_y = gy, tr_width = maxX - minX,
                        tr_height = maxY - minY, tr_rotation = 0\<rparr>
      \<and> originalWidth (data g) = Some (maxX - minX)
      \<and> originalHeight (data g) = Some (maxY - minY)
      \<and> children g = Some kids \<and> length kids = length sel
      \<and> (\<forall>i < length sel. shiftedBy gx gy (sel ! i) (kids ! i))"
proof -
  have bb: "boundingBox sel = Some (minX, minY, maxX, maxY)"
    using boundingBox_nonempty[OF assms(3)] assms(4-7) by simp
  show ?thesis
    using assms(1) bb toRelative_shifted
    unfolding handleMerge_def assms(2)[symmetric] Let_def
    by (simp add: updateObjects_def addToHistory_def emptyData_def assms(8,9))
qed

text \<open>The scenario of the specification, boxes (0, 0, 50, 50) and (100, 100, 50, 50); and
  a rectangle at (100, 100) merged with a drawn stroke, whose box and path move by
  (-100, -100).\<close>

theorem merge_creates_group_witness:
  "2 \<le> length (selectedIds (sceneOf
        [rectangleAt ''a'' 0 0 50 50, rectangleAt ''b'' 100 100 50 50] [''a'', ''b''] [[]] 0))
   \<and> filter (\<lambda>obj. obj_id obj \<in> set [''a'', ''b''])
        [rectangleAt ''a'' 0 0 50 50, rectangleAt ''b'' 100 100 50 50] \<noteq> []
   \<and> handleMerge ''1'' (sceneOf
        [rectangleAt ''a'' 0 0 50 50, rectangleAt ''b'' 100 100 50 50] [''a'', ''b''] [[]] 0)
     = Inr (sceneOf
        [groupAt ''merged-1'' 0 0 150 150 150 150
           [rectangleAt ''a'' 0 0 50 50, rectangleAt ''b'' 100 100 50 50]]
        [''merged-1'']
        [[], [groupAt ''merged-1'' 0 0 150 150 150 150
                [rectangleAt ''a'' 0 0 50 50, rectangleAt ''b'' 100 100 50 50]]] 1)
   \<and> handleMerge ''2'' (sceneOf
        [rectangleAt ''c'' 100 100 50 50, rectangleAt ''e'' 500 500 50 50,
         strokeAt ''d'' [\<lparr>pt_x = 210, pt_y = 210\<rparr>, \<lparr>pt_x = 240, pt_y = 240\<rparr>] 205 205 40 40]
        [''c'', ''d''] [[]] 0)
     = Inr (sceneOf
        [rectangleAt ''e'' 500 500 50 50,
         groupAt ''merged-2'' 100 100 145 145 145 145
           [rectangleAt ''c'' 0 0 50 50,
            strokeAt ''d'' [\<lparr>pt_x = 110, pt_y = 110\<rparr>, \<lparr>pt_x = 140, pt_y = 140\<rparr>] 105 105 40 40]]
        [''merged-2'']
        [[], [rectangleAt ''e'' 500 500 50 50,
              groupAt ''merged-2'' 100 100 145 145 145 145
                [rectangleAt ''c'' 0 0 50 50,
                 strokeAt ''d'' [\<lparr>pt_x = 110, pt_y = 110\<rparr>, \<lparr>pt_x = 140, pt_y = 140\<rparr>]
                   105 105 40 40]]] 1)"
  using merge_creates_group [OF _ refl _ refl refl refl refl refl refl,
      of "sceneOf [rectangleAt ''a'' 0 0 50 50, rectangleAt ''b'' 100 100 50 50]
            [''a'', ''b''] [[]] 0" "''1''"]
  by (simp add: handleMerge_def boundingBox_def toRelative_def updateObjects_def
      addToHistory_def fixture_defs Let_def)

subsection \<open>Resize\<close>







lemma resizeOne_transform: "transform (resizeOne t0 t1 obj) = t1"
  by (auto simp: resizeOne_def setPath_def setTransform_def split: option.splits)


lemma find_Some_mem: "find P xs = Some x \<Longrightarrow> x \<in> set xs \<and> P x"
  by (induction xs) (auto split: if_splits)





lemma fixture_fields:
  "obj_id (rectangleAt ident x y w h) = ident"
  "transform (rectangleAt ident x y w h)
     = \<lparr>tr_x = x, tr_y = y, tr_width = w, tr_height = h, tr_rotation = 0\<rparr>"
  "obj_id (strokeAt ident pth x y w h) = ident"
  "transform (strokeAt ident pth x y w h)
     = \<lparr>tr_x = x, tr_y = y, tr_width = w, tr_height = h, tr_rotation = 0\<rparr>"
  by (simp_all add: rectangleAt_def strokeAt_def)

lemma sceneOf_objects: "objects (sceneOf objs sel snaps i) = objs"
  by (simp add: sceneOf_def)







subsection \<open>Spray particles\<close>

lemma sprayLoop_member:
  "q \<in> set (sprayLoop rnd k sw ox oy pth) \<Longrightarrow>
   \<exists>i j k'. Suc i < length pth
     \<and> j < particleCount sw (pt_x (pth ! i) - ox) (pt_y (pth ! i) - oy)
                           (pt_x (pth ! Suc i) - ox) (pt_y (pth ! Suc i) - oy)
     \<and> q = sprayParticle rnd k' sw (pt_x (pth ! i) - ox) (pt_y (pth ! i) - oy)
              (pt_x (pth ! Suc i) - ox) (pt_y (pth ! Suc i) - oy)
              (particleCount sw (pt_x (pth ! i) - ox) (pt_y (pth ! i) - oy)
                           (pt_x (pth ! Suc i) - ox) (pt_y (pth ! Suc i) - oy)) j"
proof (induction rnd k sw ox oy pth rule: sprayLoop.induct)
  case (1 rnd k sw objectX objectY p1 p2 rest)
  let ?n = "particleCount sw (pt_x p1 - objectX) (pt_y p1 - objectY)
              (pt_x p2 - objectX) (pt_y p2 - objectY)"
  from "1.prems" consider
      (here) j where "j < ?n"
        "q = sprayParticle rnd (k + 4 * j) sw (pt_x p1 - objectX) (pt_y p1 - objectY)
               (pt_x p2 - objectX) (pt_y p2 - objectY) ?n j"
    | (later) "q \<in> set (sprayLoop rnd (k + 4 * ?n) sw objectX objectY (p2 # rest))"
    by (auto simp: Let_def)
  then show ?case
  proof cases
    case here
    then show ?thesis
      by (intro exI[of _ 0] exI[of _ j] exI[of _ "k + 4 * j"]) simp
  next
    case later
    from "1.IH"[OF refl refl refl refl refl later] obtain i j k' where
      "Suc i < length (p2 # rest)"
      "j < particleCount sw (pt_x ((p2 # rest) ! i) - objectX) (pt_y ((p2 # rest) ! i) - objectY)
             (pt_x ((p2 # rest) ! Suc i) - objectX) (pt_y ((p2 # rest) ! Suc i) - objectY)"
      "q = sprayParticle rnd k' sw (pt_x ((p2 # rest) ! i) - objectX) (pt_y ((p2 # rest) ! i) - objectY)
             (pt_x ((p2 # rest) ! Suc i) - objectX) (pt_y ((p2 # rest) ! Suc i) - objectY)
             (particleCount sw (pt_x ((p2 # rest) ! i) - objectX) (pt_y ((p2 # rest) ! i) - objectY)
             (pt_x ((p2 # rest) ! Suc i) - objectX) (pt_y ((p2 # rest) ! Suc i) - objectY)) j"
      by blast
    then show ?thesis
      by (intro exI[of _ "Suc i"] exI[of _ j] exI[of _ k']) simp
  qed
qed simp_all

lemma jitter_bound:
  fixes sw r :: real
  assumes "0 \<le> sw" "0 \<le> r" "r < 1"
  shows "\<bar>(r - 0.5) * (sw * 1.5)\<bar> \<le> 1.5 * sw"
proof -
  have "\<bar>r - 0.5\<bar> \<le> 1" using assms by (simp add: abs_le_iff)
  then have "\<bar>r - 0.5\<bar> * (sw * 1.5) \<le> 1 * (sw * 1.5)"
    using assms(1) by (intro mult_right_mono) simp_all
  then show ?thesis using assms(1) by (simp add: abs_mult)
qed

lemma sprayParticle_bounds:
  assumes "0 \<le> sw" and "\<forall>n. 0 \<le> rnd n \<and> rnd n < 1"
  shows "\<bar>sp_x (sprayParticle rnd k sw x1 y1 x2 y2 n j) - (x1 + (x2 - x1) * (real j / real n))\<bar> \<le> 1.5 * sw"
    and "\<bar>sp_y (sprayParticle rnd k sw x1 y1 x2 y2 n j) - (y1 + (y2 - y1) * (real j / real n))\<bar> \<le> 1.5 * sw"
    and "1 \<le> sp_size (sprayParticle rnd k sw x1 y1 x2 y2 n j)"
    and "sp_size (sprayParticle rnd k sw x1 y1 x2 y2 n j) \<le> sw / 3 + 1"
    and "0.3 \<le> sp_alpha (sprayParticle rnd k sw x1 y1 x2 y2 n j)"
    and "sp_alpha (sprayParticle rnd k sw x1 y1 x2 y2 n j) \<le> 0.8"
proof -
  have r: "\<And>m. 0 \<le> rnd m" "\<And>m. rnd m < 1" using assms(2) by auto
  show "\<bar>sp_x (sprayParticle rnd k sw x1 y1 x2 y2 n j) - (x1 + (x2 - x1) * (real j / real n))\<bar> \<le> 1.5 * sw"
    using jitter_bound[OF assms(1) r(1) r(2), of k] by (simp add: sprayParticle_def Let_def)
  show "\<bar>sp_y (sprayParticle rnd k sw x1 y1 x2 y2 n j) - (y1 + (y2 - y1) * (real j / real n))\<bar> \<le> 1.5 * sw"
    using jitter_bound[OF assms(1) r(1) r(2), of "k + 1"] by (simp add: sprayParticle_def Let_def)
  show "1 \<le> sp_size (sprayParticle rnd k sw x1 y1 x2 y2 n j)"
    using assms(1) r(1)[of "k + 2"] by (simp add: sprayParticle_def Let_def)
  have "rnd (k + 2) * (sw / 3) \<le> 1 * (sw / 3)"
    using assms(1) r(2)[of "k + 2"] by (intro mult_right_mono) simp_all
  then show "sp_size (sprayParticle rnd k sw x1 y1 x2 y2 n j) \<le> sw / 3 + 1"
    by (simp add: sprayParticle_def Let_def)
  show "0.3 \<le> sp_alpha (sprayParticle rnd k sw x1 y1 x2 y2 n j)"
    using r(1)[of "k + 3"] by (simp add: sprayParticle_def Let_def)
  show "sp_alpha (sprayParticle rnd k sw x1 y1 x2 y2 n j) \<le> 0.8"
    using r(2)[of "k + 3"] by (simp add: sprayParticle_def Let_def)
qed

lemma foldl_growExtent_Some: "foldl growExtent (Some a) pth \<noteq> None"
proof (induction pth arbitrary: a)
  case Nil
  then show ?case by simp
next
  case (Cons p ps)
  obtain b1 b2 b3 b4 where "a = (b1, b2, b3, b4)" by (rule prod_cases4)
  then show ?case using Cons.IH by simp
qed

lemma pathExtent_Some: "pth \<noteq> [] \<Longrightarrow> pathExtent pth \<noteq> None"
  by (cases pth) (simp_all add: pathExtent_def foldl_growExtent_Some)

text \<open>
  C9, as the code has it. A brush gesture of two or more points that commits with the
  spray brush appends one drawn object whose particle list is the one list that
  \<open>generateSprayParticles\<close> returns at this commit. For a stroke width of at least 0 and
  random values in \<open>[0, 1)\<close>, every particle belongs to a segment \<open>i\<close> of the path and a
  step \<open>j\<close> of it: its position is the point interpolated on the segment (relative to the
  object's origin) plus a jitter of at most 1.5 times the stroke width on each axis, its
  radius lies between 1 and the stroke width / 3 plus 1, and its alpha between 0.3 and 0.8.
\<close>

theorem spray_commit:
  assumes "currentTool s = BrushTool" and "isDrawing s" and "length (currentPath s) > 1"
    and "activeBrushType s = Spray" and "0 \<le> brushSize s"
    and "\<forall>n. 0 \<le> rnd n \<and> rnd n < 1"
  shows "\<exists>s' obj ps. handleMouseUp stamp rnd multi s = Inr s'
     \<and> objects s' = objects s @ [obj]
     \<and> sprayParticles (data obj) = Some ps
     \<and> ps = generateSprayParticles rnd (currentPath s) (brushSize s)
              (tr_x (transform obj)) (tr_y (transform obj))
     \<and> (\<forall>q \<in> set ps. \<exists>i j n x1 y1 x2 y2.
           Suc i < length (currentPath s) \<and> j < n
         \<and> x1 = pt_x (currentPath s ! i) - tr_x (transform obj)
         \<and> y1 = pt_y (currentPath s ! i) - tr_y (transform obj)
         \<and> x2 = pt_x (currentPath s ! Suc i) - tr_x (transform obj)
         \<and> y2 = pt_y (currentPath s ! Suc i) - tr_y (transform obj)
         \<and> \<bar>sp_x q - (x1 + (x2 - x1) * (real j / real n))\<bar> \<le> 1.5 * brushSize s
         \<and> \<bar>sp_y q - (y1 + (y2 - y1) * (real j / real n))\<bar> \<le> 1.5 * brushSize s
         \<and> 1 \<le> sp_size q \<and> sp_size q \<le> brushSize s / 3 + 1
         \<and> 0.3 \<le> sp_alpha q \<and> sp_alpha q \<le> 0.8)"
proof -
  from assms(3) have "currentPath s \<noteq> []" by auto
  from pathExtent_Some[OF this] obtain minX minY maxX maxY where
    e: "pathExtent (currentPath s) = Some (minX, minY, maxX, maxY)"
    by (cases "pathExtent (currentPath s)") auto
  let ?ox = "minX - brushSize s" and ?oy = "minY - brushSize s"
  let ?ps = "generateSprayParticles rnd (currentPath s) (brushSize s) ?ox ?oy"
  let ?obj = "CanvasObject (''drawn-'' @ stamp) Drawn
                   \<lparr>tr_x = ?ox, tr_y = ?oy,
                    tr_width = maxX - minX + brushSize s * 2,
                    tr_height = maxY - minY + brushSize s * 2, tr_rotation = 0\<rparr>
                   \<lparr>strokeColor = brushColor s, fillColor = ''transparent'',
                    strokeWidth = brushSize s, opacity = Some (brushOpacity s)\<rparr>
                   (emptyData\<lparr>path := Some (currentPath s),
                              brushType := Some (activeBrushType s),
                              sprayParticles := Some ?ps,
                              erasedAreas := Some []\<rparr>)
                   None"
  have up: "handleMouseUp stamp rnd multi s
      = Inr (release ((updateObjects (objects s @ [?obj]) s)\<lparr>currentPath := []\<rparr>))"
    using assms(1-4) e by (simp add: handleMouseUp_def commitStroke_def Let_def)
  have bounds: "\<forall>q \<in> set ?ps. \<exists>i j n x1 y1 x2 y2.
           Suc i < length (currentPath s) \<and> j < n
         \<and> x1 = pt_x (currentPath s ! i) - ?ox
         \<and> y1 = pt_y (currentPath s ! i) - ?oy
         \<and> x2 = pt_x (currentPath s ! Suc i) - ?ox
         \<and> y2 = pt_y (currentPath s ! Suc i) - ?oy
         \<and> \<bar>sp_x q - (x1 + (x2 - x1) * (real j / real n))\<bar> \<le> 1.5 * brushSize s
         \<and> \<bar>sp_y q - (y1 + (y2 - y1) * (real j / real n))\<bar> \<le> 1.5 * brushSize s
         \<and> 1 \<le> sp_size q \<and> sp_size q \<le> brushSize s / 3 + 1
         \<and> 0.3 \<le> sp_alpha q \<and> sp_alpha q \<le> 0.8"
  proof
    fix q assume "q \<in> set ?ps"
    from sprayLoop_member[OF this[unfolded generateSprayParticles_def]]
    obtain i j k' where i: "Suc i < length (currentPath s)"
      and j: "j < particleCount (brushSize s) (pt_x (currentPath s ! i) - ?ox)
                    (pt_y (currentPath s ! i) - ?oy) (pt_x (currentPath s ! Suc i) - ?ox)
                    (pt_y (currentPath s ! Suc i) - ?oy)"
      and q: "q = sprayParticle rnd k' (brushSize s) (pt_x (currentPath s ! i) - ?ox)
                    (pt_y (currentPath s ! i) - ?oy) (pt_x (currentPath s ! Suc i) - ?ox)
                    (pt_y (currentPath s ! Suc i) - ?oy)
                    (particleCount (brushSize s) (pt_x (currentPath s ! i) - ?ox)
                    (pt_y (currentPath s ! i) - ?oy) (pt_x (currentPath s ! Suc i) - ?ox)
                    (pt_y (currentPath s ! Suc i) - ?oy)) j"
      by blast
    show "\<exists>i j n x1 y1 x2 y2.
           Suc i < length (currentPath s) \<and> j < n
         \<and> x1 = pt_x (currentPath s ! i) - ?ox
         \<and> y1 = pt_y (currentPath s ! i) - ?oy
         \<and> x2 = pt_x (currentPath s ! Suc i) - ?ox
         \<and> y2 = pt_y (currentPath s ! Suc i) - ?oy
         \<and> \<bar>sp_x q - (x1 + (x2 - x1) * (real j / real n))\<bar> \<le> 1.5 * brushSize s
         \<and> \<bar>sp_y q - (y1 + (y2 - y1) * (real j / real n))\<bar> \<le> 1.5 * brushSize s
         \<and> 1 \<le> sp_size q \<and> sp_size q \<le> brushSize s / 3 + 1
         \<and> 0.3 \<le> sp_alpha q \<and> sp_alpha q \<le> 0.8"
      using i j sprayParticle_bounds[OF assms(5,6)] unfolding q
      by (intro exI[of _ i] exI[of _ j] exI conjI) (assumption | rule refl | blast)+
  qed
  show ?thesis
    using up bounds
    by (intro exI[of _ "release ((updateObjects (objects s @ [?obj]) s)\<lparr>currentPath := []\<rparr>)"]
         exI[of _ ?obj] exI[of _ ?ps])
       (simp add: release_def updateObjects_def addToHistory_def emptyData_def Let_def)
qed


lemma sprayStroke_reached:
  "handleMouseMove \<lparr>pt_x = 13, pt_y = 14\<rparr>
     (handleMouseDown \<lparr>pt_x = 10, pt_y = 10\<rparr> False
       (setBrushType Spray (setCurrentTool BrushTool initialEditor))) = Inr sprayStroke"
  by (simp add: handleMouseMove_def handleMouseDown_def setBrushType_def setCurrentTool_def
      sprayStroke_def initialEditor_def CANVAS_WIDTH_def CANVAS_HEIGHT_def Let_def)

lemma sprayStroke_particles:
  "storedParticles (handleMouseUp ''1'' halves False sprayStroke)
     = Inr [Some [\<lparr>sp_x = 5, sp_y = 5, sp_size = 11 / 6, sp_alpha = 11 / 20\<rparr>,
                  \<lparr>sp_x = 13 / 2, sp_y = 7, sp_size = 11 / 6, sp_alpha = 11 / 20\<rparr>]]"
  by (simp add: storedParticles_def handleMouseUp_def commitStroke_def pathExtent_def
      generateSprayParticles_def particleCount_def sprayParticle_def halves_def release_def
      updateObjects_def addToHistory_def sprayStroke_def initialEditor_def emptyData_def
      upt_rec Let_def)

text \<open>The default brush of size 5 with every random value one half: two particles on the
  one segment, each of radius 11/6.\<close>

theorem spray_commit_witness:
  "currentTool sprayStroke = BrushTool \<and> isDrawing sprayStroke
   \<and> length (currentPath sprayStroke) > 1 \<and> activeBrushType sprayStroke = Spray
   \<and> 0 \<le> brushSize sprayStroke \<and> (\<forall>n. 0 \<le> halves n \<and> halves n < 1)
   \<and> storedParticles (handleMouseUp ''1'' halves False sprayStroke)
     = Inr [Some [\<lparr>sp_x = 5, sp_y = 5, sp_size = 11 / 6, sp_alpha = 11 / 20\<rparr>,
                  \<lparr>sp_x = 13 / 2, sp_y = 7, sp_size = 11 / 6, sp_alpha = 11 / 20\<rparr>]]"
  using spray_commit [of sprayStroke halves "''1''" False]
  by (simp add: sprayStroke_particles)
     (simp add: sprayStroke_def initialEditor_def halves_def)

text \<open>The claim as stated fails on the radius: with the stroke width 5 the particles have
  radius 11/6, above 5/3.\<close>

theorem spray_radius_counterexample:
  "storedParticles (handleMouseUp ''1'' halves False sprayStroke)
     = Inr [Some [\<lparr>sp_x = 5, sp_y = 5, sp_size = 11 / 6, sp_alpha = 11 / 20\<rparr>,
                  \<lparr>sp_x = 13 / 2, sp_y = 7, sp_size = 11 / 6, sp_alpha = 11 / 20\<rparr>]]
   \<and> brushSize sprayStroke = 5
   \<and> \<not> (11 / 6 \<le> (5::real) / 3)"
  by (simp add: sprayStroke_particles) (simp add: sprayStroke_def initialEditor_def)

subsection \<open>The canvas invariant\<close>

text \<open>
  C1 at the brush commit. With the default brush of size 5, a stroke from (2, 3) to
  (30, 40) commits a drawn object whose box is the path's extent padded by 5 on every
  side: it starts at (-3, -2), left of and above the canvas. The commit does not pass
  the box through \<open>constrainToCanvas\<close>, as the shape commit does.
\<close>

theorem brush_commit_leaves_canvas:
  "storedTransforms (thenEvent
      (handleMouseMove \<lparr>pt_x = 30, pt_y = 40\<rparr>
        (handleMouseDown \<lparr>pt_x = 2, pt_y = 3\<rparr> False (setCurrentTool BrushTool initialEditor)))
      (handleMouseUp ''1'' halves False))
     = Inr [\<lparr>tr_x = - 3, tr_y = - 2, tr_width = 38, tr_height = 47, tr_rotation = 0\<rparr>]
   \<and> \<not> withinCanvas \<lparr>tr_x = - 3, tr_y = - 2, tr_width = 38, tr_height = 47, tr_rotation = 0\<rparr>"
  by (simp add: storedTransforms_def thenEvent_def handleMouseMove_def handleMouseDown_def
      handleMouseUp_def commitStroke_def pathExtent_def release_def setCurrentTool_def
      updateObjects_def addToHistory_def initialEditor_def emptyData_def withinCanvas_def
      CANVAS_WIDTH_def CANVAS_HEIGHT_def Let_def)

text \<open>
  C6 at the property edit. With one rectangle of 100 by 100 selected, an update that asks
  for the position (5000, -50) is stored as it is; \<open>constrainToCanvas\<close> would have given
  (1100, 0).
\<close>

theorem property_edit_not_clamped:
  "map transform (objects (handleObjectUpdate
      (transformEdit \<lparr>tr_x = 5000, tr_y = - 50, tr_width = 100, tr_height = 100, tr_rotation = 0\<rparr>)
      (sceneOf [rectangleAt ''r'' 0 0 100 100] [''r''] [[]] 0)))
     = [\<lparr>tr_x = 5000, tr_y = - 50, tr_width = 100, tr_height = 100, tr_rotation = 0\<rparr>]
   \<and> constrainToCanvas 5000 (- 50) 100 100
       \<lparr>tr_x = 5000, tr_y = - 50, tr_width = 100, tr_height = 100, tr_rotation = 0\<rparr>
     = \<lparr>tr_x = 1100, tr_y = 0, tr_width = 100, tr_height = 100, tr_rotation = 0\<rparr>"
  by (simp add: handleObjectUpdate_def spreadUpdates_def transformEdit_def updateObjects_def
      addToHistory_def constrainToCanvas_def CANVAS_WIDTH_def CANVAS_HEIGHT_def fixture_defs
      Let_def)

subsection \<open>Paths that keep the invariant\<close>

lemma constrain_within:
  "10 \<le> w \<Longrightarrow> 10 \<le> h \<Longrightarrow> withinCanvas (constrainToCanvas x y w h b)"
  by (simp add: withinCanvas_def constrainToCanvas_def CANVAS_WIDTH_def CANVAS_HEIGHT_def
      min_def max_def)

text \<open>X1. A resize always ends at least 10 by 10 and inside the canvas, whatever the handle,
  the delta and the transform it starts from.\<close>

theorem resize_within_canvas: "withinCanvas (resizeTransform h dx dy t)"
  by (simp add: resizeTransform_def Let_def constrain_within)

lemma resizeTransform_within: "withinCanvas (resizeTransform h dx dy t)"
  by (simp add: resizeTransform_def Let_def constrain_within)

lemma withinCanvas_rotation:
  "withinCanvas (t\<lparr>tr_rotation := a\<rparr>) = withinCanvas t"
  by (simp add: withinCanvas_def)

lemma drag_within:
  assumes "withinCanvas t"
  shows "withinCanvas (t\<lparr>tr_x := tr_x (constrainToCanvas x y (tr_width t) (tr_height t) t),
                          tr_y := tr_y (constrainToCanvas x y (tr_width t) (tr_height t) t)\<rparr>)"
  using assms
  by (simp add: withinCanvas_def constrainToCanvas_def CANVAS_WIDTH_def CANVAS_HEIGHT_def
      min_def max_def)

lemma setPath_transform: "transform (setPath pth obj) = transform obj"
  by (simp add: setPath_def)

lemma setTransform_transform: "transform (setTransform t obj) = t"
  by (simp add: setTransform_def)

lemma allWithin_resize: "allWithin objs \<Longrightarrow> allWithin (resizeSelected h dx dy sel objs)"
  by (auto simp: allWithin_def resizeSelected_def Let_def resizeOne_transform resizeTransform_within)

lemma allWithin_rotate: "allWithin objs \<Longrightarrow> allWithin (rotateSelected pos sel objs)"
  by (auto simp: allWithin_def rotateSelected_def Let_def setTransform_transform
      withinCanvas_rotation)

lemma moveOne_transform:
  "transform (moveOne c dX dY obj) = (transform obj)\<lparr>tr_x := tr_x c, tr_y := tr_y c\<rparr>"
  by (auto simp: moveOne_def Let_def setTransform_transform setPath_transform
      split: option.splits)

lemma allWithin_move:
  assumes "allWithin objs" and "sel \<in> set objs" and "distinct (map obj_id objs)"
  shows "allWithin (moveSelected pos off sel objs)"
  unfolding allWithin_def moveSelected_def Let_def set_map
proof (intro ballI, elim imageE)
  fix moved obj
  assume m: "moved = (if obj_id obj = obj_id sel
      then moveOne (constrainToCanvas (pt_x pos - pt_x off) (pt_y pos - pt_y off)
               (tr_width (transform sel)) (tr_height (transform sel)) (transform sel))
             (tr_x (constrainToCanvas (pt_x pos - pt_x off) (pt_y pos - pt_y off)
               (tr_width (transform sel)) (tr_height (transform sel)) (transform sel))
                - tr_x (transform sel))
             (tr_y (constrainToCanvas (pt_x pos - pt_x off) (pt_y pos - pt_y off)
               (tr_width (transform sel)) (tr_height (transform sel)) (transform sel))
                - tr_y (transform sel)) obj
      else obj)" and o: "obj \<in> set objs"
  show "withinCanvas (transform moved)"
  proof (cases "obj_id obj = obj_id sel")
    case True
    with o assms(2,3) have "obj = sel" by (meson distinct_map inj_onD)
    moreover have "withinCanvas (transform sel)" using assms(1,2) by (simp add: allWithin_def)
    ultimately show ?thesis
      using m True drag_within[of "transform sel" "pt_x pos - pt_x off" "pt_y pos - pt_y off"]
      by (simp add: moveOne_transform)
  next
    case False
    then show ?thesis using m o assms(1) by (simp add: allWithin_def)
  qed
qed

lemma applyEraser_transform:
  "transform (applyEraserToObject obj cp pos d pt) = transform obj"
proof (cases "isGroup obj")
  case True
  then obtain kids where "children obj = Some kids" "obj_type obj = Merged"
    by (auto simp: isGroup_def)
  then show ?thesis by (simp add: applyEraser_group)
next
  case False
  then show ?thesis by (simp add: applyEraser_regular eraseRegular_def Let_def)
qed

lemma allWithin_erase: "allWithin objs \<Longrightarrow> allWithin (eraseAt cp pos d objs)"
  by (auto simp: allWithin_def eraseAt_def applyEraser_transform)

text \<open>X2. A pointer move keeps the invariant on every top-level object, when their ids are
  distinct: dragging, resizing, rotating and erasing all do.\<close>

theorem pointer_move_keeps_canvas:
  assumes "allWithin (objects s)" and "distinct (map obj_id (objects s))"
    and "handleMouseMove p s = Inr s'"
  shows "allWithin (objects s')"
proof -
  have sel: "\<And>x. firstSelected s = Some x \<Longrightarrow> x \<in> set (objects s)"
    using find_Some_mem by (fastforce simp: firstSelected_def)
  show ?thesis
    using assms sel
    by (auto simp: handleMouseMove_def Let_def updateObjects_def addToHistory_def
        allWithin_resize allWithin_rotate allWithin_move allWithin_erase
        split: if_splits option.splits)
qed

lemma release_objects: "objects (release s) = objects s"
  by (simp add: release_def)

lemma commitShape_objects:
  "allWithin (objects s) \<Longrightarrow> allWithin (objects (commitShape stamp ty st cur s))"
  by (auto simp: commitShape_def Let_def updateObjects_def addToHistory_def allWithin_def
      constrain_within)

text \<open>X3. A pointer-up with a shape tool keeps the invariant: a draft of more than 10 by 10
  is committed through \<open>constrainToCanvas\<close>, a smaller one is dropped.\<close>

theorem shape_commit_keeps_canvas:
  assumes "allWithin (objects s)" and "shapeType (currentTool s) \<noteq> None"
    and "handleMouseUp stamp rnd multi s = Inr s'"
  shows "allWithin (objects s')"
proof -
  from assms(2) have t: "currentTool s \<noteq> BrushTool" "currentTool s \<noteq> SelectTool"
    "currentTool s \<noteq> MergeTool" by auto
  have "handleMouseUp stamp rnd multi s =
      (if shapeStart s \<noteq> None \<and> shapeCurrent s \<noteq> None
       then Inr (release (commitShape stamp (the (shapeType (currentTool s)))
                             (the (shapeStart s)) (the (shapeCurrent s)) s))
       else Inr (release s))"
    using t assms(2) by (simp add: handleMouseUp_def)
  with assms(3) have "objects s' = objects s
      \<or> objects s' = objects (commitShape stamp (the (shapeType (currentTool s)))
                             (the (shapeStart s)) (the (shapeCurrent s)) s)"
    by (auto simp: release_objects split: if_splits)
  then show ?thesis using assms(1) commitShape_objects by auto
qed

lemma boundingBox_Nil: "boundingBox [] = None"
  by (simp add: boundingBox_def)

lemma handleMerge_objects:
  assumes "\<not> length (selectedIds s) < 2"
    and "boundingBox (filter (\<lambda>obj. obj_id obj \<in> set (selectedIds s)) (objects s))
           = Some (minX, minY, maxX, maxY)"
    and "handleMerge stamp s = Inr s'"
  shows "\<exists>g. objects s' = filter (\<lambda>obj. obj_id obj \<notin> set (selectedIds s)) (objects s) @ [g]
     \<and> transform g = \<lparr>tr_x = max 0 (min minX (1200 - (maxX - minX))),
                       tr_y = max 0 (min minY (800 - (maxY - minY))),
                       tr_width = maxX - minX, tr_height = maxY - minY, tr_rotation = 0\<rparr>"
proof -
  have "handleMerge stamp s = Inr ((updateObjects
          (filter (\<lambda>obj. obj_id obj \<notin> set (selectedIds s)) (objects s) @
           [CanvasObject (''merged-'' @ stamp) Merged
              \<lparr>tr_x = max 0 (min minX (1200 - (maxX - minX))),
               tr_y = max 0 (min minY (800 - (maxY - minY))),
               tr_width = maxX - minX, tr_height = maxY - minY, tr_rotation = 0\<rparr>
              \<lparr>strokeColor = ''#000000'', fillColor = ''transparent'',
               strokeWidth = 2, opacity = None\<rparr>
              (emptyData\<lparr>originalWidth := Some (maxX - minX),
                         originalHeight := Some (maxY - minY)\<rparr>)
              (Some (map (toRelative (max 0 (min minX (1200 - (maxX - minX))))
                                     (max 0 (min minY (800 - (maxY - minY)))))
                      (filter (\<lambda>obj. obj_id obj \<in> set (selectedIds s)) (objects s))))]) s)
        \<lparr>selectedIds := [''merged-'' @ stamp]\<rparr>)"
    unfolding handleMerge_def Let_def using assms(1,2) by simp
  with assms(3) show ?thesis
    by (auto simp: updateObjects_def addToHistory_def Let_def)
qed

text \<open>X4. Merge keeps the invariant: the union of boxes inside the canvas lies inside the
  canvas and is at least as large as any of them.\<close>

theorem merge_keeps_canvas:
  assumes "allWithin (objects s)" and "handleMerge stamp s = Inr s'"
  shows "allWithin (objects s')"
proof (cases "length (selectedIds s) < 2")
  case True
  with assms show ?thesis by (simp add: handleMerge_def)
next
  case False
  let ?sel = "filter (\<lambda>obj. obj_id obj \<in> set (selectedIds s)) (objects s)"
  let ?X = "(\<lambda>ob. tr_x (transform ob)) ` set ?sel"
  let ?Y = "(\<lambda>ob. tr_y (transform ob)) ` set ?sel"
  let ?R = "(\<lambda>ob. tr_x (transform ob) + tr_width (transform ob)) ` set ?sel"
  let ?B = "(\<lambda>ob. tr_y (transform ob) + tr_height (transform ob)) ` set ?sel"
  have ne: "?sel \<noteq> []"
  proof
    assume "?sel = []"
    then have "handleMerge stamp s = Inl NonFinite"
      using False unfolding handleMerge_def Let_def by (simp add: boundingBox_Nil)
    with assms(2) show False by simp
  qed
  then obtain a where a: "a \<in> set ?sel" by (cases ?sel) auto
  have win: "\<And>ob. ob \<in> set ?sel \<Longrightarrow> withinCanvas (transform ob)"
    using assms(1) by (simp add: allWithin_def)
  have fin: "finite ?X" "finite ?Y" "finite ?R" "finite ?B" by simp_all
  have nonempty: "?X \<noteq> {}" "?Y \<noteq> {}" "?R \<noteq> {}" "?B \<noteq> {}"
    unfolding image_is_empty set_empty by (rule ne)+
  have lo: "0 \<le> Min ?X" "0 \<le> Min ?Y"
    using win fin nonempty by (auto simp: withinCanvas_def)
  have hi: "Max ?R \<le> 1200" "Max ?B \<le> 800"
    using win fin nonempty by (auto simp: withinCanvas_def CANVAS_WIDTH_def CANVAS_HEIGHT_def)
  have "Min ?X \<le> tr_x (transform a)" "tr_x (transform a) + tr_width (transform a) \<le> Max ?R"
    "Min ?Y \<le> tr_y (transform a)" "tr_y (transform a) + tr_height (transform a) \<le> Max ?B"
    using a by (auto intro!: Min_le Max_ge)
  moreover have "10 \<le> tr_width (transform a)" "10 \<le> tr_height (transform a)"
    using win[OF a] by (simp_all add: withinCanvas_def)
  ultimately have sz: "10 \<le> Max ?R - Min ?X" "10 \<le> Max ?B - Min ?Y" by linarith+
  have g: "withinCanvas \<lparr>tr_x = max 0 (min (Min ?X) (1200 - (Max ?R - Min ?X))),
                          tr_y = max 0 (min (Min ?Y) (800 - (Max ?B - Min ?Y))),
                          tr_width = Max ?R - Min ?X, tr_height = Max ?B - Min ?Y,
                          tr_rotation = 0\<rparr>"
    using lo hi sz by (simp add: withinCanvas_def CANVAS_WIDTH_def CANVAS_HEIGHT_def)
  from handleMerge_objects[OF False boundingBox_nonempty[OF ne] assms(2)] obtain grp where
    "objects s' = filter (\<lambda>obj. obj_id obj \<notin> set (selectedIds s)) (objects s) @ [grp]"
    "transform grp = \<lparr>tr_x = max 0 (min (Min ?X) (1200 - (Max ?R - Min ?X))),
                          tr_y = max 0 (min (Min ?Y) (800 - (Max ?B - Min ?Y))),
                          tr_width = Max ?R - Min ?X, tr_height = Max ?B - Min ?Y,
                          tr_rotation = 0\<rparr>" by blast
  then show ?thesis using assms(1) g by (auto simp: allWithin_def)
qed

text \<open>X5. With the live objects equal to the current snapshot and a later snapshot to go
  to, redo followed by undo brings back the objects and the index and leaves the history
  as it is.\<close>

theorem redo_then_undo:
  assumes "historyIndex s + 1 < length (history s)"
    and "objects s = snapshot (history s ! historyIndex s)"
  shows "\<exists>s1 s2. handleRedo s = Inr s1 \<and> handleUndo s1 = Inr s2
     \<and> objects s2 = objects s \<and> historyIndex s2 = historyIndex s \<and> history s2 = history s"
  using assms by (simp add: handleRedo_def handleUndo_def)

text \<open>X6. With the live objects equal to the current snapshot and the index above 0, undo
  followed by redo brings back the objects and the index and leaves the history as it
  is.\<close>

theorem undo_then_redo:
  assumes "0 < historyIndex s" and "historyIndex s < length (history s)"
    and "objects s = snapshot (history s ! historyIndex s)"
  shows "\<exists>s1 s2. handleUndo s = Inr s1 \<and> handleRedo s1 = Inr s2
     \<and> objects s2 = objects s \<and> historyIndex s2 = historyIndex s \<and> history s2 = history s"
  using assms by (simp add: handleRedo_def handleUndo_def)

lemma grab_body:
  "handleMouseDown \<lparr>pt_x = 30, pt_y = 125\<rparr> False
      (sceneOf [rectangleAt ''r'' 5 100 50 50] [''r''] [[]] 0)
   = (sceneOf [rectangleAt ''r'' 5 100 50 50] [''r''] [[]] 0)
       \<lparr>dragStart := Some \<lparr>pt_x = 30, pt_y = 125\<rparr>,
        dragOffset := Some \<lparr>pt_x = 25, pt_y = 25\<rparr>\<rparr>"
  by (simp add: handleMouseDown_def firstSelected_def grabSelected_def
      transformPointToObjectSpace_def resizeHandles_def isPointInObject_def inBox_def
      fixture_defs CANVAS_WIDTH_def CANVAS_HEIGHT_def Let_def)

lemma drag_left:
  "handleMouseMove \<lparr>pt_x = 20, pt_y = 120\<rparr>
     ((sceneOf [rectangleAt ''r'' 5 100 50 50] [''r''] [[]] 0)
       \<lparr>dragStart := Some \<lparr>pt_x = 30, pt_y = 125\<rparr>,
        dragOffset := Some \<lparr>pt_x = 25, pt_y = 25\<rparr>\<rparr>)
   = Inr ((sceneOf [rectangleAt ''r'' 0 95 50 50] [''r'']
            [[], [rectangleAt ''r'' 0 95 50 50]] 1)
       \<lparr>dragStart := Some \<lparr>pt_x = 30, pt_y = 125\<rparr>,
        dragOffset := Some \<lparr>pt_x = 25, pt_y = 25\<rparr>,
        marqueeCurrent := Some \<lparr>pt_x = 20, pt_y = 120\<rparr>,
        mousePosition := Some \<lparr>pt_x = 20, pt_y = 120\<rparr>\<rparr>)"
  by (simp add: handleMouseMove_def firstSelected_def moveSelected_def moveOne_def
      setTransform_def constrainToCanvas_def updateObjects_def addToHistory_def
      fixture_defs CANVAS_WIDTH_def CANVAS_HEIGHT_def Let_def)

text \<open>The drag scenario: a 50 by 50 rectangle at (5, 100) dragged by (-10, -5) stops at
  the left edge, x = 0, and goes up by exactly 5.\<close>

theorem pointer_move_keeps_canvas_witness:
  "allWithin (objects (handleMouseDown \<lparr>pt_x = 30, pt_y = 125\<rparr> False
      (sceneOf [rectangleAt ''r'' 5 100 50 50] [''r''] [[]] 0)))
   \<and> distinct (map obj_id (objects (handleMouseDown \<lparr>pt_x = 30, pt_y = 125\<rparr> False
      (sceneOf [rectangleAt ''r'' 5 100 50 50] [''r''] [[]] 0))))
   \<and> storedObjects (handleMouseMove \<lparr>pt_x = 20, pt_y = 120\<rparr>
        (handleMouseDown \<lparr>pt_x = 30, pt_y = 125\<rparr> False
          (sceneOf [rectangleAt ''r'' 5 100 50 50] [''r''] [[]] 0)))
     = Inr [rectangleAt ''r'' 0 95 50 50]
   \<and> allWithin [rectangleAt ''r'' 0 95 50 50]"
  using pointer_move_keeps_canvas [OF _ _ drag_left]
  by (simp add: grab_body drag_left storedObjects_def sceneOf_objects)
     (simp add: allWithin_def withinCanvas_def fixture_fields CANVAS_WIDTH_def CANVAS_HEIGHT_def)

lemma draft_rectangle:
  "handleMouseMove \<lparr>pt_x = 300, pt_y = 250\<rparr>
        (handleMouseDown \<lparr>pt_x = 100, pt_y = 100\<rparr> False
           (setCurrentTool RectangleTool initialEditor))
   = Inr (initialEditor\<lparr>currentTool := RectangleTool,
            shapeStart := Some \<lparr>pt_x = 100, pt_y = 100\<rparr>,
            shapeCurrent := Some \<lparr>pt_x = 300, pt_y = 250\<rparr>,
            marqueeCurrent := Some \<lparr>pt_x = 300, pt_y = 250\<rparr>,
            mousePosition := Some \<lparr>pt_x = 300, pt_y = 250\<rparr>\<rparr>)"
  by (simp add: handleMouseMove_def handleMouseDown_def setCurrentTool_def initialEditor_def
      CANVAS_WIDTH_def CANVAS_HEIGHT_def Let_def)

lemma commit_rectangle:
  "handleMouseUp ''1'' halves False
     (initialEditor\<lparr>currentTool := RectangleTool,
            shapeStart := Some \<lparr>pt_x = 100, pt_y = 100\<rparr>,
            shapeCurrent := Some \<lparr>pt_x = 300, pt_y = 250\<rparr>,
            marqueeCurrent := Some \<lparr>pt_x = 300, pt_y = 250\<rparr>,
            mousePosition := Some \<lparr>pt_x = 300, pt_y = 250\<rparr>\<rparr>)
   = Inr ((sceneOf [rectangleAt ''rectangle-1'' 100 100 200 150] []
            [[], [rectangleAt ''rectangle-1'' 100 100 200 150]] 1)
          \<lparr>currentTool := RectangleTool,
            marqueeCurrent := Some \<lparr>pt_x = 300, pt_y = 250\<rparr>,
            mousePosition := Some \<lparr>pt_x = 300, pt_y = 250\<rparr>\<rparr>)"
  by (simp add: handleMouseUp_def commitShape_def constrainToCanvas_def release_def
      updateObjects_def addToHistory_def fixture_defs CANVAS_WIDTH_def CANVAS_HEIGHT_def Let_def)

text \<open>X7. The draft scenario: a rectangle drafted from (100, 100) to (300, 250) is committed
  with the transform (100, 100, 200, 150) and rotation 0.\<close>

theorem rectangle_draft_commit:
  "storedObjects (thenEvent
      (handleMouseMove \<lparr>pt_x = 300, pt_y = 250\<rparr>
        (handleMouseDown \<lparr>pt_x = 100, pt_y = 100\<rparr> False
           (setCurrentTool RectangleTool initialEditor)))
      (handleMouseUp ''1'' halves False))
   = Inr [rectangleAt ''rectangle-1'' 100 100 200 150]"
  by (simp add: draft_rectangle commit_rectangle thenEvent_def storedObjects_def sceneOf_objects)

theorem shape_commit_keeps_canvas_witness:
  "allWithin (objects (initialEditor\<lparr>currentTool := RectangleTool,
            shapeStart := Some \<lparr>pt_x = 100, pt_y = 100\<rparr>,
            shapeCurrent := Some \<lparr>pt_x = 300, pt_y = 250\<rparr>,
            marqueeCurrent := Some \<lparr>pt_x = 300, pt_y = 250\<rparr>,
            mousePosition := Some \<lparr>pt_x = 300, pt_y = 250\<rparr>\<rparr>))
   \<and> shapeType RectangleTool \<noteq> None
   \<and> allWithin [rectangleAt ''rectangle-1'' 100 100 200 150]"
  using shape_commit_keeps_canvas [OF _ _ commit_rectangle]
  by (simp add: sceneOf_objects) (simp add: allWithin_def initialEditor_def)

lemma merge_two:
  "handleMerge ''1'' (sceneOf
        [rectangleAt ''a'' 0 0 50 50, rectangleAt ''b'' 100 100 50 50] [''a'', ''b''] [[]] 0)
     = Inr (sceneOf
        [groupAt ''merged-1'' 0 0 150 150 150 150
           [rectangleAt ''a'' 0 0 50 50, rectangleAt ''b'' 100 100 50 50]]
        [''merged-1'']
        [[], [groupAt ''merged-1'' 0 0 150 150 150 150
                [rectangleAt ''a'' 0 0 50 50, rectangleAt ''b'' 100 100 50 50]]] 1)"
  by (simp add: handleMerge_def boundingBox_def toRelative_def updateObjects_def
      addToHistory_def fixture_defs Let_def)

theorem merge_keeps_canvas_witness:
  "allWithin (objects (sceneOf
        [rectangleAt ''a'' 0 0 50 50, rectangleAt ''b'' 100 100 50 50] [''a'', ''b''] [[]] 0))
   \<and> allWithin [groupAt ''merged-1'' 0 0 150 150 150 150
           [rectangleAt ''a'' 0 0 50 50, rectangleAt ''b'' 100 100 50 50]]"
  using merge_keeps_canvas [OF _ merge_two]
  by (simp add: sceneOf_objects)
     (simp add: allWithin_def withinCanvas_def fixture_fields CANVAS_WIDTH_def CANVAS_HEIGHT_def)

theorem redo_then_undo_witness:
  "historyIndex (sceneOf [rectangleAt ''a'' 0 0 50 50] [''a'']
       [[], [rectangleAt ''a'' 0 0 50 50],
        [rectangleAt ''a'' 0 0 50 50, rectangleAt ''b'' 100 100 50 50]] 1) + 1
     < length (history (sceneOf [rectangleAt ''a'' 0 0 50 50] [''a'']
       [[], [rectangleAt ''a'' 0 0 50 50],
        [rectangleAt ''a'' 0 0 50 50, rectangleAt ''b'' 100 100 50 50]] 1))
   \<and> storedObjects (thenEvent (handleRedo (sceneOf [rectangleAt ''a'' 0 0 50 50] [''a'']
       [[], [rectangleAt ''a'' 0 0 50 50],
        [rectangleAt ''a'' 0 0 50 50, rectangleAt ''b'' 100 100 50 50]] 1)) handleUndo)
     = Inr [rectangleAt ''a'' 0 0 50 50]"
  using redo_then_undo [of "sceneOf [rectangleAt ''a'' 0 0 50 50] [''a'']
       [[], [rectangleAt ''a'' 0 0 50 50],
        [rectangleAt ''a'' 0 0 50 50, rectangleAt ''b'' 100 100 50 50]] 1"]
  by (simp add: storedObjects_def thenEvent_def handleRedo_def handleUndo_def sceneOf_def
      initialEditor_def)

theorem undo_then_redo_witness:
  "0 < historyIndex (sceneOf [rectangleAt ''a'' 0 0 50 50] [''a'']
       [[], [rectangleAt ''a'' 0 0 50 50],
        [rectangleAt ''a'' 0 0 50 50, rectangleAt ''b'' 100 100 50 50]] 1)
   \<and> storedObjects (thenEvent (handleUndo (sceneOf [rectangleAt ''a'' 0 0 50 50] [''a'']
       [[], [rectangleAt ''a'' 0 0 50 50],
        [rectangleAt ''a'' 0 0 50 50, rectangleAt ''b'' 100 100 50 50]] 1)) handleRedo)
     = Inr [rectangleAt ''a'' 0 0 50 50]"
  using undo_then_redo [of "sceneOf [rectangleAt ''a'' 0 0 50 50] [''a'']
       [[], [rectangleAt ''a'' 0 0 50 50],
        [rectangleAt ''a'' 0 0 50 50, rectangleAt ''b'' 100 100 50 50]] 1"]
  by (simp add: storedObjects_def thenEvent_def handleRedo_def handleUndo_def sceneOf_def
      initialEditor_def)

end
